theory Spec2Isabelle
  imports Complex_Main
begin

section \<open>Data model (convex/schema.ts)\<close>

text \<open>
  The \<open>conversions\<close> table of the schema. Storage ids and document ids are opaque
  identifiers issued by the platform; they are modelled as natural numbers (a validated
  id is never the empty string, so an id that is present is truthy). Time stamps are
  the millisecond counts of \<open>Date.now()\<close>. An optional field is an \<open>option\<close>.
\<close>

datatype status = Pending | Processing | Completed | Failed

datatype ConversionType = PdfToWord | ImageToPdf | PdfMerger

type_synonym bytes = "nat list"

type_synonym url = string

record conversion =
  docId :: nat
  userId :: string
  status :: status
  type :: ConversionType
  pdfFileId :: "nat option"
  docxFileId :: "nat option"
  fileName :: string
  error :: "string option"
  createdAt :: int
  updatedAt :: int
  expiresAt :: int
  sourceFileIds :: "nat list option"
  completedAt :: "int option"

text \<open>
  The partial object handed to \<open>ctx.db.patch\<close>: a field that is supplied is
  \<open>Some\<close>, a field that is left out is \<open>None\<close>.
\<close>

record patchFields =
  p_userId :: "string option"
  p_status :: "status option"
  p_type :: "ConversionType option"
  p_pdfFileId :: "nat option"
  p_docxFileId :: "nat option"
  p_fileName :: "string option"
  p_error :: "string option"
  p_createdAt :: "int option"
  p_updatedAt :: "int option"
  p_expiresAt :: "int option"
  p_sourceFileIds :: "nat list option"
  p_completedAt :: "int option"

text \<open>The actions a mutation hands to \<open>ctx.scheduler.runAfter\<close>.\<close>

datatype task = ConvertPdfToWord nat | ConvertImagesToPdf nat | MergePdfFiles nat

text \<open>
  The state shared by all functions: the \<open>conversions\<close> table in creation order
  (oldest first), the blob store \<open>_storage\<close> as an association list from storage
  id to content, the counters the platform draws fresh ids from, and the scheduled
  background tasks.
\<close>

record state =
  conversions :: "conversion list"
  nextDocId :: nat
  files :: "(nat \<times> bytes) list"
  nextStorageId :: nat
  scheduled :: "task list"

text \<open>The response of an HTTP \<open>fetch\<close>.\<close>

record response =
  ok :: bool
  statusLine :: string
  body :: bytes

text \<open>
  A page of a PDF document as the libraries build it: the drawing operations on it.
  A document is the list of its pages.
\<close>

datatype draw = DrawText string rat rat nat | DrawImage bytes

type_synonym page = "draw list"

text \<open>
  How the upload of a finished document ends. The code posts the document to the
  upload URL and reads \<open>storageId\<close> out of the JSON of the reply without looking
  at \<open>uploadRes.ok\<close>. So either the request or the parsing of its reply throws; or
  the reply carries a storage id, and the document is in the blob store under it; or
  the reply is JSON without a storage id (an upload the store refused): nothing is
  stored and \<open>storageId\<close> is \<open>undefined\<close>.
\<close>

datatype uploadReply = UploadThrows string | UploadStored | UploadNoStorageId

text \<open>
  Everything outside the repository that the code calls, as parameters: the clock, the
  process environment, the URL the blob store issues for an id, HTTP, the Cloudmersive
  API, and the PDF libraries. A call that can throw returns \<open>Inl\<close> of the message.
\<close>

record env =
  now :: int
  CLOUDMERSIVE_API_KEY :: "string option"
  storageUrl :: "nat \<Rightarrow> url"
  storageDeleteError :: "nat \<Rightarrow> string option"
  fetch :: "url \<Rightarrow> string + response"
  upload :: "bytes \<Rightarrow> uploadReply"
  convertDocumentPdfToDocx :: "bytes \<Rightarrow> string + bytes"
  convertImageImageToPdf :: "bytes \<Rightarrow> string + bytes"
  pdfkitImageError :: "bytes \<Rightarrow> string option"
  pdfkitOutput :: "page list \<Rightarrow> bytes"
  pdfLibLoad :: "bytes \<Rightarrow> string + page list"
  pdfLibSave :: "page list \<Rightarrow> bytes"
  pdfLibEncodeError :: "string \<Rightarrow> string option"
  pageHeight :: rat
  localeDateString :: string

section \<open>The platform's database, blob store and scheduler\<close>

definition db_get :: "state \<Rightarrow> nat \<Rightarrow> conversion option" where
  "db_get st i = find (\<lambda>c. docId c = i) (conversions st)"

definition db_insert :: "conversion \<Rightarrow> state \<Rightarrow> nat \<times> state" where
  "db_insert c st =
     (nextDocId st,
      st\<lparr>conversions := conversions st @ [c\<lparr>docId := nextDocId st\<rparr>],
         nextDocId := Suc (nextDocId st)\<rparr>)"

definition applyPatch :: "patchFields \<Rightarrow> conversion \<Rightarrow> conversion" where
  "applyPatch p c =
     c\<lparr>userId := (case p_userId p of Some v \<Rightarrow> v | None \<Rightarrow> userId c),
       status := (case p_status p of Some v \<Rightarrow> v | None \<Rightarrow> status c),
       type := (case p_type p of Some v \<Rightarrow> v | None \<Rightarrow> type c),
       pdfFileId := (case p_pdfFileId p of Some v \<Rightarrow> Some v | None \<Rightarrow> pdfFileId c),
       docxFileId := (case p_docxFileId p of Some v \<Rightarrow> Some v | None \<Rightarrow> docxFileId c),
       fileName := (case p_fileName p of Some v \<Rightarrow> v | None \<Rightarrow> fileName c),
       error := (case p_error p of Some v \<Rightarrow> Some v | None \<Rightarrow> error c),
       createdAt := (case p_createdAt p of Some v \<Rightarrow> v | None \<Rightarrow> createdAt c),
       updatedAt := (case p_updatedAt p of Some v \<Rightarrow> v | None \<Rightarrow> updatedAt c),
       expiresAt := (case p_expiresAt p of Some v \<Rightarrow> v | None \<Rightarrow> expiresAt c),
       sourceFileIds :=
         (case p_sourceFileIds p of Some v \<Rightarrow> Some v | None \<Rightarrow> sourceFileIds c),
       completedAt :=
         (case p_completedAt p of Some v \<Rightarrow> Some v | None \<Rightarrow> completedAt c)\<rparr>"

definition noFields :: patchFields where
  "noFields =
     \<lparr>p_userId = None, p_status = None, p_type = None, p_pdfFileId = None,
      p_docxFileId = None, p_fileName = None, p_error = None, p_createdAt = None,
      p_updatedAt = None, p_expiresAt = None, p_sourceFileIds = None,
      p_completedAt = None\<rparr>"

text \<open>\<open>ctx.db.patch\<close> throws when the document does not exist.\<close>

definition db_patch :: "nat \<Rightarrow> patchFields \<Rightarrow> state \<Rightarrow> string + state" where
  "db_patch i p st =
     (case db_get st i of
        None \<Rightarrow> Inl ''Update on nonexistent document''
      | Some _ \<Rightarrow>
          Inr (st\<lparr>conversions :=
                 map (\<lambda>c. if docId c = i then applyPatch p c else c) (conversions st)\<rparr>))"

definition db_delete :: "nat \<Rightarrow> state \<Rightarrow> string + state" where
  "db_delete i st =
     (case db_get st i of
        None \<Rightarrow> Inl ''Delete on nonexistent document''
      | Some _ \<Rightarrow> Inr (st\<lparr>conversions := filter (\<lambda>c. docId c \<noteq> i) (conversions st)\<rparr>))"

definition storage_getUrl :: "env \<Rightarrow> state \<Rightarrow> nat \<Rightarrow> url option" where
  "storage_getUrl e st f =
     (case map_of (files st) f of None \<Rightarrow> None | Some _ \<Rightarrow> Some (storageUrl e f))"

definition storage_store :: "bytes \<Rightarrow> state \<Rightarrow> nat \<times> state" where
  "storage_store b st =
     (nextStorageId st,
      st\<lparr>files := files st @ [(nextStorageId st, b)],
         nextStorageId := Suc (nextStorageId st)\<rparr>)"

definition storage_delete :: "env \<Rightarrow> nat \<Rightarrow> state \<Rightarrow> string + state" where
  "storage_delete e f st =
     (case storageDeleteError e f of
        Some msg \<Rightarrow> Inl msg
      | None \<Rightarrow> Inr (st\<lparr>files := filter (\<lambda>(k, _). k \<noteq> f) (files st)\<rparr>))"

definition scheduler_runAfter :: "task \<Rightarrow> state \<Rightarrow> state" where
  "scheduler_runAfter t st = st\<lparr>scheduled := scheduled st @ [t]\<rparr>"

text \<open>
  JavaScript's \<open>!v\<close> on a value that is a string, \<open>null\<close> or \<open>undefined\<close>:
  \<open>null\<close>, \<open>undefined\<close> and the empty string are falsy.
\<close>

definition falsy :: "string option \<Rightarrow> bool" where
  "falsy v = (case v of None \<Rightarrow> True | Some s \<Rightarrow> s = [])"

section \<open>convex/files.ts\<close>

text \<open>
  Every handler receives the identity of its caller with \<open>ctx\<close> (the result of
  \<open>getAuthUserId(ctx)\<close>, \<open>None\<close> for \<open>null\<close>), whether it consults it or not.
\<close>

definition newConversion ::
  "env \<Rightarrow> string \<Rightarrow> ConversionType \<Rightarrow> nat option \<Rightarrow> nat list option \<Rightarrow> string \<Rightarrow> conversion"
where
  "newConversion e u ty pdf srcs name =
     \<lparr>docId = 0, userId = u, status = Processing, type = ty, pdfFileId = pdf,
      docxFileId = None, fileName = name, error = None, createdAt = now e,
      updatedAt = now e, expiresAt = now e + 60 * 60 * 1000, sourceFileIds = srcs,
      completedAt = None\<rparr>"

definition startConversion ::
  "env \<Rightarrow> string option \<Rightarrow> nat \<Rightarrow> string \<Rightarrow> state \<Rightarrow> string + nat \<times> state"
where
  "startConversion e caller pdfFile name st =
     (if falsy caller then Inl ''Not authenticated''
      else
        let (conversionId, st1) =
              db_insert (newConversion e (the caller) PdfToWord (Some pdfFile) None name) st
        in Inr (conversionId, scheduler_runAfter (ConvertPdfToWord conversionId) st1))"

definition startImageToPdfConversion ::
  "env \<Rightarrow> string option \<Rightarrow> nat list \<Rightarrow> string \<Rightarrow> state \<Rightarrow> string + nat \<times> state"
where
  "startImageToPdfConversion e caller srcs name st =
     (if falsy caller then Inl ''Not authenticated''
      else
        let (conversionId, st1) =
              db_insert (newConversion e (the caller) ImageToPdf None (Some srcs) name) st
        in Inr (conversionId, scheduler_runAfter (ConvertImagesToPdf conversionId) st1))"

definition startPdfMergerConversion ::
  "env \<Rightarrow> string option \<Rightarrow> nat list \<Rightarrow> string \<Rightarrow> state \<Rightarrow> string + nat \<times> state"
where
  "startPdfMergerConversion e caller srcs name st =
     (if falsy caller then Inl ''Not authenticated''
      else
        let (conversionId, st1) =
              db_insert (newConversion e (the caller) PdfMerger None (Some srcs) name) st
        in Inr (conversionId, scheduler_runAfter (MergePdfFiles conversionId) st1))"

text \<open>
  What \<open>listConversions\<close> returns for one job: the document itself and the URLs
  resolved for it (\<open>null\<close> for a blob the store no longer has).
\<close>

record listedConversion =
  listedDoc :: conversion
  listedDocxUrl :: "url option"
  listedPdfUrl :: "url option"
  listedSourceUrls :: "url option list"

definition listedWithUrls :: "env \<Rightarrow> state \<Rightarrow> conversion \<Rightarrow> listedConversion" where
  "listedWithUrls e st c =
     \<lparr>listedDoc = c,
      listedDocxUrl =
        (case docxFileId c of Some f \<Rightarrow> storage_getUrl e st f | None \<Rightarrow> None),
      listedPdfUrl =
        (case pdfFileId c of Some f \<Rightarrow> storage_getUrl e st f | None \<Rightarrow> None),
      listedSourceUrls =
        (case sourceFileIds c of Some fs \<Rightarrow> map (storage_getUrl e st) fs | None \<Rightarrow> [])\<rparr>"

text \<open>
  The index \<open>by_user_and_type\<close> restricted to one user and one type, in descending
  order: the matching documents, newest first.
\<close>

definition listConversions ::
  "env \<Rightarrow> string option \<Rightarrow> ConversionType \<Rightarrow> state \<Rightarrow> listedConversion list"
where
  "listConversions e caller ty st =
     (if falsy caller then []
      else
        map (listedWithUrls e st)
          (rev (filter (\<lambda>c. userId c = the caller \<and> type c = ty) (conversions st))))"

text \<open>What \<open>getConversion\<close> returns: \<open>sourceUrls\<close> is \<open>undefined\<close> when empty.\<close>

record conversionResult =
  resultDoc :: conversion
  pdfUrl :: "url option"
  docxUrl :: "url option"
  sourceUrls :: "url list option"

text \<open>\<open>url || null\<close> followed by \<open>filter(Boolean)\<close>: only non-empty URLs are kept.\<close>

definition truthyUrls :: "url option list \<Rightarrow> url list" where
  "truthyUrls us = concat (map (\<lambda>u. case u of None \<Rightarrow> [] | Some s \<Rightarrow> if s = [] then [] else [s]) us)"

definition getConversion ::
  "env \<Rightarrow> string option \<Rightarrow> nat \<Rightarrow> state \<Rightarrow> conversionResult option"
where
  "getConversion e caller conversionId st =
     (case db_get st conversionId of
        None \<Rightarrow> None
      | Some c \<Rightarrow>
          let pdfUrl = (case pdfFileId c of Some f \<Rightarrow> storage_getUrl e st f | None \<Rightarrow> None);
              docxUrl = (case docxFileId c of Some f \<Rightarrow> storage_getUrl e st f | None \<Rightarrow> None);
              sourceUrls =
                (if (type c = ImageToPdf \<or> type c = PdfMerger)
                    \<and> (case sourceFileIds c of Some fs \<Rightarrow> 0 < length fs | None \<Rightarrow> False)
                 then truthyUrls (map (storage_getUrl e st) (the (sourceFileIds c)))
                 else [])
          in Some \<lparr>resultDoc = c, pdfUrl = pdfUrl, docxUrl = docxUrl,
                   sourceUrls = (if 0 < length sourceUrls then Some sourceUrls else None)\<rparr>)"

definition markConversionComplete ::
  "env \<Rightarrow> string option \<Rightarrow> nat \<Rightarrow> bool \<Rightarrow> nat option \<Rightarrow> state \<Rightarrow> string + state"
where
  "markConversionComplete e caller conversionId success docx st =
     (case db_get st conversionId of
        None \<Rightarrow> Inl ''Conversion not found''
      | Some _ \<Rightarrow>
          db_patch conversionId
            (noFields\<lparr>p_status := Some (if success then Completed else Failed),
                      p_docxFileId := docx,
                      p_updatedAt := Some (now e)\<rparr>) st)"

definition getConversionJob :: "string option \<Rightarrow> nat \<Rightarrow> state \<Rightarrow> conversion option" where
  "getConversionJob caller conversionId st = db_get st conversionId"

text \<open>
  \<open>args.error ? {error: args.error} : {}\<close>: an empty error string is falsy and is
  not written. Every status literal is a non-empty string, so a supplied status is
  always written.
\<close>

definition updateConversionJob ::
  "env \<Rightarrow> string option \<Rightarrow> nat \<Rightarrow> nat option \<Rightarrow> status option \<Rightarrow> string option
     \<Rightarrow> state \<Rightarrow> string + state"
where
  "updateConversionJob e caller jobId pdf stat err st =
     db_patch jobId
       (noFields\<lparr>p_pdfFileId := pdf,
                 p_status := stat,
                 p_error := (case err of None \<Rightarrow> None | Some m \<Rightarrow> if m = [] then None else Some m),
                 p_updatedAt := Some (now e)\<rparr>) st"

section \<open>convex/crons.ts\<close>

text \<open>
  The body of the \<open>try\<close> block for one expired conversion; \<open>Inl\<close> is the \<open>catch\<close>
  branch, which keeps whatever the block had already deleted.
\<close>

definition cleanupOne :: "env \<Rightarrow> conversion \<Rightarrow> state \<Rightarrow> state \<times> bool" where
  "cleanupOne e c st =
     (case (case pdfFileId c of Some f \<Rightarrow> storage_delete e f st | None \<Rightarrow> Inr st) of
        Inl _ \<Rightarrow> (st, False)
      | Inr st1 \<Rightarrow>
          (case (case docxFileId c of Some f \<Rightarrow> storage_delete e f st1 | None \<Rightarrow> Inr st1) of
             Inl _ \<Rightarrow> (st1, False)
           | Inr st2 \<Rightarrow>
               (case db_delete (docId c) st2 of
                  Inl _ \<Rightarrow> (st2, False)
                | Inr st3 \<Rightarrow> (st3, True))))"

fun cleanupLoop :: "env \<Rightarrow> conversion list \<Rightarrow> state \<Rightarrow> nat \<Rightarrow> nat \<times> state" where
  "cleanupLoop e [] st deletedCount = (deletedCount, st)"
| "cleanupLoop e (c # cs) st deletedCount =
     (case cleanupOne e c st of
        (st', True) \<Rightarrow> cleanupLoop e cs st' (deletedCount + 1)
      | (st', False) \<Rightarrow> cleanupLoop e cs st' deletedCount)"

definition cleanupExpiredConversions :: "env \<Rightarrow> state \<Rightarrow> nat \<times> state" where
  "cleanupExpiredConversions e st =
     (let expiredConversions = filter (\<lambda>c. expiresAt c < now e) (conversions st)
      in cleanupLoop e expiredConversions st 0)"

section \<open>convex/conversion.ts\<close>

text \<open>Template literals print numbers in decimal.\<close>

definition digitChar :: "nat \<Rightarrow> char" where
  "digitChar d = ''0123456789'' ! d"

fun string_of_nat :: "nat \<Rightarrow> string" where
  "string_of_nat n =
     (if n < 10 then [digitChar n] else string_of_nat (n div 10) @ [digitChar (n mod 10)])"

text \<open>
  \<open>await\<close> in a loop, and \<open>Promise.all\<close> over a mapped array: the results in
  order, or the first failure.
\<close>

fun mapResult :: "('a \<Rightarrow> string + 'b) \<Rightarrow> 'a list \<Rightarrow> string + 'b list" where
  "mapResult f [] = Inr []"
| "mapResult f (x # xs) =
     (case f x of
        Inl m \<Rightarrow> Inl m
      | Inr y \<Rightarrow> (case mapResult f xs of Inl m \<Rightarrow> Inl m | Inr ys \<Rightarrow> Inr (y # ys)))"

subsection \<open>convertPdfToWord\<close>

text \<open>
  The \<open>try\<close> block: \<open>Inl\<close> carries the message of the error thrown and the
  state at the throw, \<open>Inr\<close> the value returned and the state at the return.
\<close>

definition convertPdfToWordTry ::
  "env \<Rightarrow> string option \<Rightarrow> nat \<Rightarrow> state \<Rightarrow> string \<times> state + nat \<times> state"
where
  "convertPdfToWordTry e caller conversionId st =
     (case getConversion e caller conversionId st of
        None \<Rightarrow> Inl (''Conversion not found'', st)
      | Some conversion \<Rightarrow>
          if falsy (CLOUDMERSIVE_API_KEY e)
          then Inl (''Cloudmersive API key not found in environment variables'', st)
          else
            (case pdfFileId (resultDoc conversion) of
               None \<Rightarrow> Inl (''PDF file ID is missing'', st)
             | Some f \<Rightarrow>
                 if falsy (storage_getUrl e st f) then Inl (''PDF file not found'', st)
                 else
                   (case fetch e (the (storage_getUrl e st f)) of
                      Inl m \<Rightarrow> Inl (m, st)
                    | Inr pdfResponse \<Rightarrow>
                        if \<not> ok pdfResponse
                        then Inl (''Failed to download PDF: '' @ statusLine pdfResponse, st)
                        else
                          (case convertDocumentPdfToDocx e (body pdfResponse) of
                             Inl m \<Rightarrow> Inl (m, st)
                           | Inr result \<Rightarrow>
                               let (docxBytes, st1) = storage_store result st
                               in (case markConversionComplete e caller conversionId True
                                          (Some docxBytes) st1 of
                                     Inl m \<Rightarrow> Inl (m, st1)
                                   | Inr st2 \<Rightarrow> Inr (docxBytes, st2))))))"

text \<open>
  The action: the value returned or the message of the error thrown, and the state it
  leaves. The \<open>catch\<close> block marks the job and throws the error again; when the
  marking itself throws, that error is the one thrown.
\<close>

definition convertPdfToWord ::
  "env \<Rightarrow> string option \<Rightarrow> nat \<Rightarrow> state \<Rightarrow> (string + nat) \<times> state"
where
  "convertPdfToWord e caller conversionId st =
     (case convertPdfToWordTry e caller conversionId st of
        Inr (docxBytes, st') \<Rightarrow> (Inr docxBytes, st')
      | Inl (err, st') \<Rightarrow>
          (case markConversionComplete e caller conversionId False None st' of
             Inl err' \<Rightarrow> (Inl err', st')
           | Inr st'' \<Rightarrow> (Inl err, st'')))"

subsection \<open>convertImagesWithApi\<close>

text \<open>
  The two merge endpoints of the Cloudmersive API, as parameters. The request object
  of \<open>mergeDocumentPdfMulti\<close> is the list of its input files that are not
  \<open>undefined\<close>, \<open>InputFile1\<close> first. Each image is first converted to a document
  of its own, one after the other, by whichever image-to-PDF method the client offers
  (\<open>convertImageImageToPdf\<close> of the environment); the first error ends the function.
\<close>

record mergeApi =
  mergeDocumentPdfMulti :: "bytes list \<Rightarrow> string + bytes"
  mergeDocumentPdf :: "bytes \<Rightarrow> bytes \<Rightarrow> string + bytes"

text \<open>
  The loop \<open>for (let i = 10; i < pdfPages.length; i += 9)\<close>. The first component
  of the result lists the inputs of every merge call made, in order.
\<close>

function mergeBatches ::
  "mergeApi \<Rightarrow> bytes list \<Rightarrow> nat \<Rightarrow> bytes \<Rightarrow> bytes list list \<times> (string + bytes)"
where
  "mergeBatches api pdfPages i currentPdf =
     (if i < length pdfPages then
        (let batch = take 9 (drop i pdfPages) in
         case mergeDocumentPdfMulti api (currentPdf # batch) of
           Inl m \<Rightarrow> ([currentPdf # batch], Inl m)
         | Inr merged \<Rightarrow>
             (case mergeBatches api pdfPages (i + 9) merged of
                (calls, r) \<Rightarrow> ((currentPdf # batch) # calls, r)))
      else ([], Inr currentPdf))"
  by pat_completeness auto
termination
  by (relation "measure (\<lambda>(api, pdfPages, i, currentPdf). length pdfPages - i)") auto

definition convertImagesWithApi ::
  "env \<Rightarrow> mergeApi \<Rightarrow> string \<Rightarrow> bytes list \<Rightarrow> bytes list list \<times> (string + bytes)"
where
  "convertImagesWithApi e api apiKey imageBuffers =
     (case mapResult (convertImageImageToPdf e) imageBuffers of
        Inl m \<Rightarrow> ([], Inl m)
      | Inr pdfPages \<Rightarrow>
          if length pdfPages = 1 then ([], Inr (hd pdfPages))
          else if 2 < length pdfPages then
            (case mergeDocumentPdfMulti api (take 10 pdfPages) of
               Inl m \<Rightarrow> ([take 10 pdfPages], Inl m)
             | Inr mergedPdf \<Rightarrow>
                 if 10 < length pdfPages then
                   (case mergeBatches api pdfPages 10 mergedPdf of
                      (calls, r) \<Rightarrow> (take 10 pdfPages # calls, r))
                 else ([take 10 pdfPages], Inr mergedPdf))
          else if length pdfPages = 2 then
            ([[pdfPages ! 0, pdfPages ! 1]], mergeDocumentPdf api (pdfPages ! 0) (pdfPages ! 1))
          else ([], Inl ''Invalid PDF merge state''))"

subsection \<open>convertImagesToPdfBuffer and its three approaches\<close>

text \<open>
  Both downloading helpers call \<open>fetch\<close> and read the body without looking at
  \<open>response.ok\<close>; only a \<open>fetch\<close> that throws fails them.
\<close>

definition downloadBody :: "env \<Rightarrow> url \<Rightarrow> string + bytes" where
  "downloadBody e u = (case fetch e u of Inl m \<Rightarrow> Inl m | Inr r \<Rightarrow> Inr (body r))"

definition convertWithCloudmersive :: "env \<Rightarrow> url list \<Rightarrow> string \<Rightarrow> string + bytes" where
  "convertWithCloudmersive e urls apiKey =
     (case mapResult (downloadBody e) urls of
        Inl m \<Rightarrow> Inl m
      | Inr imageBuffers \<Rightarrow>
          if length imageBuffers = 1 then convertImageImageToPdf e (hd imageBuffers)
          else Inl ''Multiple image conversion with Cloudmersive not implemented'')"

text \<open>
  PDFKit: one page per image, in order; \<open>doc.image\<close> throws on a buffer it cannot
  decode, which rejects the whole document.
\<close>

definition pdfkitImage :: "env \<Rightarrow> bytes \<Rightarrow> string + page" where
  "pdfkitImage e b = (case pdfkitImageError e b of Some m \<Rightarrow> Inl m | None \<Rightarrow> Inr [DrawImage b])"

definition convertWithPdfKit :: "env \<Rightarrow> url list \<Rightarrow> string + bytes" where
  "convertWithPdfKit e urls =
     (case mapResult (downloadBody e) urls of
        Inl m \<Rightarrow> Inl m
      | Inr images \<Rightarrow>
          (case mapResult (pdfkitImage e) images of
             Inl m \<Rightarrow> Inl m
           | Inr pages \<Rightarrow> Inr (pdfkitOutput e pages)))"

text \<open>
  The fallback document of \<open>createSimplePdfFromUrls\<close>. A \<open>drawText\<close> call is
  recorded with its text, position and size (the colour is left out). \<open>height\<close> is
  the height of the page as the library reports it.
\<close>

definition plural :: "nat \<Rightarrow> string" where
  "plural n = (if n \<noteq> 1 then ''s'' else [])"

definition coverPage :: "env \<Rightarrow> url list \<Rightarrow> page" where
  "coverPage e urls =
     (let height = pageHeight e in
      [DrawText ''PDF Document'' 50 (height - 100) 28,
       DrawText (''Contains '' @ string_of_nat (length urls) @ '' image''
                 @ plural (length urls)) 50 (height - 150) 14,
       DrawText (''Generated on '' @ localeDateString e) 50 (height - 180) 14,
       DrawText ''Note: Server-side image embedding failed.'' 50 (height - 230) 12,
       DrawText ''Please try client-side conversion instead.'' 50 (height - 250) 12])"

definition displayUrl :: "url \<Rightarrow> string" where
  "displayUrl u = (if 80 < length u then take 77 u @ ''...'' else u)"

text \<open>
  The loop \<open>for (let i = 0; i < urls.length && i < 30; i++)\<close> with its \<open>break\<close>;
  \<open>drawn\<close> is what has been drawn on the second page so far.
\<close>

function listUrls :: "url list \<Rightarrow> nat \<Rightarrow> rat \<Rightarrow> page \<Rightarrow> page" where
  "listUrls urls i yPosition drawn =
     (if i < length urls \<and> i < 30 then
        (let drawn1 =
               drawn @ [DrawText (string_of_nat (i + 1) @ ''. '' @ displayUrl (urls ! i))
                          50 yPosition 8];
             yPosition1 = yPosition - 15
         in if yPosition1 < 50
            then drawn1 @ [DrawText (''... and '' @ string_of_nat (length urls - i - 1)
                                     @ '' more'') 50 30 10]
            else listUrls urls (i + 1) yPosition1 drawn1)
      else drawn)"
  by pat_completeness auto
termination
  by (relation "measure (\<lambda>(urls, i, yPosition, drawn). 30 - i)") auto

definition imageUrlsPage :: "env \<Rightarrow> url list \<Rightarrow> page" where
  "imageUrlsPage e urls =
     (let height = pageHeight e in
      listUrls urls 0 (height - 100) [DrawText ''Image References:'' 50 (height - 70) 14])"

definition simplePdfDocument :: "env \<Rightarrow> url list \<Rightarrow> page list" where
  "simplePdfDocument e urls = [coverPage e urls, imageUrlsPage e urls]"

text \<open>
  \<open>drawText\<close> throws on a text the standard font cannot encode; the first such text,
  in drawing order, decides the error.
\<close>

fun drawError :: "env \<Rightarrow> draw list \<Rightarrow> string option" where
  "drawError e [] = None"
| "drawError e (DrawText t x y s # ds) =
     (case pdfLibEncodeError e t of Some m \<Rightarrow> Some m | None \<Rightarrow> drawError e ds)"
| "drawError e (DrawImage b # ds) = drawError e ds"

definition createSimplePdfFromUrls :: "env \<Rightarrow> url list \<Rightarrow> string + bytes" where
  "createSimplePdfFromUrls e urls =
     (case drawError e (concat (simplePdfDocument e urls)) of
        Some errorMessage \<Rightarrow> Inl (''Simple PDF generation failed: '' @ errorMessage)
      | None \<Rightarrow> Inr (pdfLibSave e (simplePdfDocument e urls)))"

text \<open>
  The chain. Nothing inside the outer \<open>try\<close> block throws past the two inner ones:
  the promise of \<open>createSimplePdfFromUrls\<close> is returned without \<open>await\<close>, so its
  rejection passes through unchanged and the outer \<open>catch\<close> is never entered.
  The first approach is attempted only when the API key is set.
\<close>

definition convertImagesToPdfBuffer :: "env \<Rightarrow> url option list \<Rightarrow> string + bytes" where
  "convertImagesToPdfBuffer e urls =
     (let validUrls = truthyUrls urls in
      if length validUrls = 0 then Inl ''No valid image URLs to convert''
      else
        (case (if falsy (CLOUDMERSIVE_API_KEY e) then Inl []
               else convertWithCloudmersive e validUrls (the (CLOUDMERSIVE_API_KEY e))) of
           Inr pdf \<Rightarrow> Inr pdf
         | Inl _ \<Rightarrow>
             (case convertWithPdfKit e validUrls of
                Inr pdf \<Rightarrow> Inr pdf
              | Inl _ \<Rightarrow> createSimplePdfFromUrls e validUrls)))"

subsection \<open>convertImagesToPdf\<close>

text \<open>
  The \<open>try\<close> block. An \<open>undefined\<close> storage id is left out of the arguments of
  \<open>updateConversionJob\<close>, which then patches the status alone, and is what the
  action returns.
\<close>

definition convertImagesToPdfTry ::
  "env \<Rightarrow> string option \<Rightarrow> nat \<Rightarrow> conversion \<Rightarrow> state
     \<Rightarrow> string \<times> state + nat option \<times> state"
where
  "convertImagesToPdfTry e caller conversionId conversion st =
     (let urls = (case sourceFileIds conversion of
                    Some fs \<Rightarrow> map (storage_getUrl e st) fs
                  | None \<Rightarrow> [])
      in if length urls = 0 then Inl (''No source images found'', st)
         else
           (case convertImagesToPdfBuffer e urls of
              Inl m \<Rightarrow> Inl (m, st)
            | Inr pdfBuffer \<Rightarrow>
                (case upload e pdfBuffer of
                   UploadThrows m \<Rightarrow> Inl (m, st)
                 | UploadStored \<Rightarrow>
                     let (storageId, st1) = storage_store pdfBuffer st
                     in (case updateConversionJob e caller conversionId (Some storageId)
                                (Some Completed) None st1 of
                           Inl m \<Rightarrow> Inl (m, st1)
                         | Inr st2 \<Rightarrow> Inr (Some storageId, st2))
                 | UploadNoStorageId \<Rightarrow>
                     (case updateConversionJob e caller conversionId None
                             (Some Completed) None st of
                        Inl m \<Rightarrow> Inl (m, st)
                      | Inr st2 \<Rightarrow> Inr (None, st2)))))"

text \<open>
  The job is looked up and its type checked before the \<open>try\<close> block: an error there is
  thrown without any write. \<open>err.message || "Unknown error"\<close> replaces an empty
  message.
\<close>

definition convertImagesToPdf ::
  "env \<Rightarrow> string option \<Rightarrow> nat \<Rightarrow> state \<Rightarrow> (string + nat option) \<times> state"
where
  "convertImagesToPdf e caller conversionId st =
     (case getConversionJob caller conversionId st of
        None \<Rightarrow> (Inl ''Invalid conversion job'', st)
      | Some conversion \<Rightarrow>
          if type conversion \<noteq> ImageToPdf then (Inl ''Invalid conversion job'', st)
          else
            (case convertImagesToPdfTry e caller conversionId conversion st of
               Inr (storageId, st') \<Rightarrow> (Inr storageId, st')
             | Inl (err, st') \<Rightarrow>
                 (case updateConversionJob e caller conversionId None (Some Failed)
                        (Some (if err = [] then ''Unknown error'' else err)) st' of
                    Inl err' \<Rightarrow> (Inl err', st')
                  | Inr st'' \<Rightarrow> (Inl err, st''))))"

subsection \<open>mergePdfFiles\<close>

definition pdfUrlFor :: "env \<Rightarrow> state \<Rightarrow> nat \<Rightarrow> string + url" where
  "pdfUrlFor e st fileId =
     (if falsy (storage_getUrl e st fileId)
      then Inl (''PDF file not found for ID: '' @ string_of_nat fileId)
      else Inr (the (storage_getUrl e st fileId)))"

definition downloadPdf :: "env \<Rightarrow> url \<times> nat \<Rightarrow> string + bytes" where
  "downloadPdf e ui =
     (case ui of (u, index) \<Rightarrow>
        (case fetch e u of
           Inl m \<Rightarrow> Inl m
         | Inr r \<Rightarrow>
             if \<not> ok r
             then Inl (''Failed to download PDF '' @ string_of_nat (index + 1) @ '': ''
                       @ statusLine r)
             else Inr (body r)))"

text \<open>
  The merge loop. \<open>addPages\<close> is the inner loop \<open>for (const page of pages)\<close>;
  \<open>pdfLibLoad\<close> stands for loading a source and copying its pages, and a source
  for which that throws is skipped by the \<open>catch\<close> inside the loop.
\<close>

fun addPages :: "page list \<Rightarrow> page list \<Rightarrow> page list" where
  "addPages mergedPdf [] = mergedPdf"
| "addPages mergedPdf (pg # pages) = addPages (mergedPdf @ [pg]) pages"

fun mergeLoop :: "env \<Rightarrow> bytes list \<Rightarrow> page list \<Rightarrow> page list" where
  "mergeLoop e [] mergedPdf = mergedPdf"
| "mergeLoop e (b # pdfBuffers) mergedPdf =
     (case pdfLibLoad e b of
        Inl _ \<Rightarrow> mergeLoop e pdfBuffers mergedPdf
      | Inr pages \<Rightarrow> mergeLoop e pdfBuffers (addPages mergedPdf pages))"

definition mergePdfFilesTry ::
  "env \<Rightarrow> string option \<Rightarrow> nat \<Rightarrow> state \<Rightarrow> string \<times> state + nat \<times> state"
where
  "mergePdfFilesTry e caller conversionId st =
     (case getConversion e caller conversionId st of
        None \<Rightarrow> Inl (''Conversion not found'', st)
      | Some conversion \<Rightarrow>
          (case sourceFileIds (resultDoc conversion) of
             None \<Rightarrow> Inl (''At least two PDF files are required for merging'', st)
           | Some fs \<Rightarrow>
               if length fs < 2
               then Inl (''At least two PDF files are required for merging'', st)
               else
                 (case mapResult (pdfUrlFor e st) fs of
                    Inl m \<Rightarrow> Inl (m, st)
                  | Inr pdfUrls \<Rightarrow>
                      (case mapResult (downloadPdf e) (zip pdfUrls [0 ..< length pdfUrls]) of
                         Inl m \<Rightarrow> Inl (m, st)
                       | Inr pdfBuffers \<Rightarrow>
                           let mergedPdfBytes = pdfLibSave e (mergeLoop e pdfBuffers []);
                               (storedPdfId, st1) = storage_store mergedPdfBytes st
                           in (case updateConversionJob e caller conversionId
                                      (Some storedPdfId) (Some Completed) None st1 of
                                 Inl m \<Rightarrow> Inl (m, st1)
                               | Inr st2 \<Rightarrow> Inr (storedPdfId, st2))))))"

definition mergePdfFiles ::
  "env \<Rightarrow> string option \<Rightarrow> nat \<Rightarrow> state \<Rightarrow> (string + nat) \<times> state"
where
  "mergePdfFiles e caller conversionId st =
     (case mergePdfFilesTry e caller conversionId st of
        Inr (storedPdfId, st') \<Rightarrow> (Inr storedPdfId, st')
      | Inl (err, st') \<Rightarrow>
          (case updateConversionJob e caller conversionId None (Some Failed) (Some err) st' of
             Inl err' \<Rightarrow> (Inl err', st')
           | Inr st'' \<Rightarrow> (Inl err, st'')))"

section \<open>Example environment and states\<close>

text \<open>
  A concrete environment, used to run the functions on concrete inputs: no API key is
  configured, the blob store issues \<open>blob/<id>\<close> as the URL of a blob, blob 1
  downloads as a PDF of two pages, blob 2 as a PDF of five pages and blob 3 as bytes
  that are not a PDF. A saved document is the concatenation of what is drawn on its
  pages.
\<close>

definition drawBytes :: "draw \<Rightarrow> bytes" where
  "drawBytes d = (case d of DrawImage b \<Rightarrow> b | DrawText t x y s \<Rightarrow> map of_char t)"

definition exampleEnv :: env where
  "exampleEnv =
     \<lparr>now = 10000000,
      CLOUDMERSIVE_API_KEY = None,
      storageUrl = (\<lambda>f. ''blob/'' @ string_of_nat f),
      storageDeleteError = (\<lambda>f. None),
      fetch =
        (\<lambda>u. if u = ''blob/1'' then Inr \<lparr>ok = True, statusLine = ''200 OK'', body = [1]\<rparr>
             else if u = ''blob/2'' then Inr \<lparr>ok = True, statusLine = ''200 OK'', body = [2]\<rparr>
             else if u = ''blob/3'' then Inr \<lparr>ok = True, statusLine = ''200 OK'', body = [3]\<rparr>
             else Inr \<lparr>ok = False, statusLine = ''404 Not Found'', body = []\<rparr>),
      upload = (\<lambda>b. UploadStored),
      convertDocumentPdfToDocx = (\<lambda>b. Inr (0 # b)),
      convertImageImageToPdf = (\<lambda>b. Inr b),
      pdfkitImageError = (\<lambda>b. None),
      pdfkitOutput = (\<lambda>pages. concat (map (\<lambda>pg. concat (map drawBytes pg)) pages)),
      pdfLibLoad = (\<lambda>b. if b = [1] then Inr [[DrawImage [11]], [DrawImage [12]]]
                         else if b = [2] then Inr [[DrawImage [21]], [DrawImage [22]],
                                [DrawImage [23]], [DrawImage [24]], [DrawImage [25]]]
                         else Inl ''Failed to parse PDF document''),
      pdfLibSave = (\<lambda>pages. concat (map (\<lambda>pg. concat (map drawBytes pg)) pages)),
      pdfLibEncodeError = (\<lambda>t. None),
      pageHeight = 84189 / 100,
      localeDateString = ''11/2/2026''\<rparr>"

text \<open>Alice has one \<open>pdf_to_word\<close> job, created a moment ago and not yet run.\<close>

definition aliceState :: state where
  "aliceState =
     \<lparr>conversions =
        [newConversion (exampleEnv\<lparr>now := 9000000\<rparr>) ''alice'' PdfToWord (Some 1) None
           ''a.pdf''],
      nextDocId = 1,
      files = [(1, [1])],
      nextStorageId = 2,
      scheduled = [ConvertPdfToWord 0]\<rparr>"

text \<open>
  Alice has one completed \<open>image_to_pdf\<close> job over the source blobs 1 and 2 with
  the result blob 3; it expired long before the clock of the example environment.
\<close>

definition expiredState :: state where
  "expiredState =
     \<lparr>conversions =
        [(newConversion (exampleEnv\<lparr>now := 0\<rparr>) ''alice'' ImageToPdf None (Some [1, 2])
            ''album.pdf'')
           \<lparr>status := Completed, pdfFileId := Some 3\<rparr>],
      nextDocId = 1,
      files = [(1, [1]), (2, [2]), (3, [1, 2])],
      nextStorageId = 4,
      scheduled = []\<rparr>"

text \<open>
  Alice has a \<open>pdf_to_word\<close> job and Bob an \<open>image_to_pdf\<close> job over the blobs 2
  and 3.
\<close>

definition twoUsersState :: state where
  "twoUsersState =
     \<lparr>conversions =
        [newConversion (exampleEnv\<lparr>now := 9000000\<rparr>) ''alice'' PdfToWord (Some 1) None
           ''a.pdf'',
         (newConversion (exampleEnv\<lparr>now := 9500000\<rparr>) ''bob'' ImageToPdf None (Some [2, 3])
            ''b.pdf'')\<lparr>docId := 1\<rparr>],
      nextDocId = 2,
      files = [(1, [1]), (2, [2]), (3, [3])],
      nextStorageId = 4,
      scheduled = []\<rparr>"

text \<open>Bob has a \<open>pdf_merger\<close> job over the two-page blob 1 and the five-page blob 2.\<close>

definition mergeState :: state where
  "mergeState =
     \<lparr>conversions =
        [newConversion (exampleEnv\<lparr>now := 9000000\<rparr>) ''bob'' PdfMerger None (Some [1, 2])
           ''merged.pdf''],
      nextDocId = 1,
      files = [(1, [1]), (2, [2]), (3, [3])],
      nextStorageId = 4,
      scheduled = [MergePdfFiles 0]\<rparr>"

text \<open>
  Bob has two \<open>pdf_merger\<close> jobs: one over the blobs 1, 9 and 2, of which blob 9 is
  not in the store, and one over the blobs 1, 4 and 2, of which blob 4 is in the store
  but answers 404 when downloaded.
\<close>

definition mergeMissingState :: state where
  "mergeMissingState =
     \<lparr>conversions =
        [newConversion (exampleEnv\<lparr>now := 9000000\<rparr>) ''bob'' PdfMerger None (Some [1, 9, 2])
           ''missing.pdf'',
         (newConversion (exampleEnv\<lparr>now := 9000000\<rparr>) ''bob'' PdfMerger None (Some [1, 4, 2])
            ''refused.pdf'')\<lparr>docId := 1\<rparr>],
      nextDocId = 2,
      files = [(1, [1]), (2, [2]), (4, [4])],
      nextStorageId = 5,
      scheduled = [MergePdfFiles 0, MergePdfFiles 1]\<rparr>"

text \<open>
  A merge API that concatenates its inputs and refuses more than ten of them.
\<close>

definition concatApi :: mergeApi where
  "concatApi =
     \<lparr>mergeDocumentPdfMulti =
        (\<lambda>xs. if length xs \<le> 10 then Inr (concat xs) else Inl ''too many input files''),
      mergeDocumentPdf = (\<lambda>a b. Inr (a @ b))\<rparr>"

text \<open>Twenty-three one-page documents, each standing for its own page.\<close>

definition twentyThreePages :: "bytes list" where
  "twentyThreePages =
     [[1], [2], [3], [4], [5], [6], [7], [8], [9], [10], [11], [12], [13], [14], [15], [16],
      [17], [18], [19], [20], [21], [22], [23]]"

section \<open>What a merge is expected to contain\<close>

text \<open>
  The pages a source contributes to a merge, in the words of the specification: its own
  pages in their order when it can be read, none when it cannot.
\<close>

definition sourcePages :: "env \<Rightarrow> bytes \<Rightarrow> page list" where
  "sourcePages e b = (case pdfLibLoad e b of Inl _ \<Rightarrow> [] | Inr pages \<Rightarrow> pages)"

section \<open>What the fallback document is expected to draw\<close>



section \<open>The source URLs of an image job\<close>

text \<open>
  The URLs \<open>convertImagesToPdf\<close> resolves for the sources of a job, \<open>null\<close> for
  a blob the store does not have; none when the job has no \<open>sourceFileIds\<close>.
\<close>

definition jobSourceUrls :: "env \<Rightarrow> state \<Rightarrow> conversion \<Rightarrow> url option list" where
  "jobSourceUrls e st c =
     (case sourceFileIds c of Some fs \<Rightarrow> map (storage_getUrl e st) fs | None \<Rightarrow> [])"

section \<open>Basic facts\<close>

lemma db_get_Some_docId: "db_get st i = Some c \<Longrightarrow> docId c = i"
  by (auto simp: db_get_def find_Some_iff)

lemma find_map_docId:
  assumes "\<And>c. docId (g c) = docId c"
  shows "find (\<lambda>c. docId c = i) (map (\<lambda>c. if docId c = i then g c else c) xs)
         = map_option g (find (\<lambda>c. docId c = i) xs)"
  using assms by (induction xs) auto

lemma find_map_docId_other:
  assumes "\<And>c. docId (g c) = docId c" "j \<noteq> i"
  shows "find (\<lambda>c. docId c = j) (map (\<lambda>c. if docId c = i then g c else c) xs)
         = find (\<lambda>c. docId c = j) xs"
  using assms by (induction xs) auto

lemma docId_applyPatch: "docId (applyPatch p c) = docId c"
  by (simp add: applyPatch_def)

text \<open>A patch of an existing document succeeds, rewrites that document and nothing else.\<close>

lemma db_patch_result:
  assumes "db_get st i = Some c"
  shows "\<exists>st'. db_patch i p st = Inr st' \<and> db_get st' i = Some (applyPatch p c)
           \<and> (\<forall>j. j \<noteq> i \<longrightarrow> db_get st' j = db_get st j)
           \<and> files st' = files st \<and> scheduled st' = scheduled st
           \<and> nextDocId st' = nextDocId st \<and> nextStorageId st' = nextStorageId st"
  using assms
  by (simp add: db_patch_def db_get_def find_map_docId docId_applyPatch find_map_docId_other)

section \<open>Unauthenticated callers\<close>

text \<open>
  C10: for a caller without identity, \<open>listConversions\<close> returns the empty list and
  raises nothing, while each of the three job-creating mutations (\<open>startConversion\<close>,
  \<open>startImageToPdfConversion\<close>, \<open>startPdfMergerConversion\<close>) raises
  \<open>Not authenticated\<close>.
\<close>

theorem unauthenticated_list_empty_create_raises:
  "listConversions e None ty st = []
   \<and> startConversion e None f name st = Inl ''Not authenticated''
   \<and> startImageToPdfConversion e None fs name st = Inl ''Not authenticated''
   \<and> startPdfMergerConversion e None fs name st = Inl ''Not authenticated''"
  by (simp add: listConversions_def startConversion_def startImageToPdfConversion_def
      startPdfMergerConversion_def falsy_def)

section \<open>The frame of a patch\<close>

lemma updateConversionJob_frame:
  assumes "db_get st i = Some c"
  shows "\<exists>st' c'. updateConversionJob e caller i pdf stat err st = Inr st'
           \<and> db_get st' i = Some c'
           \<and> docId c' = docId c \<and> userId c' = userId c \<and> type c' = type c
           \<and> docxFileId c' = docxFileId c \<and> fileName c' = fileName c
           \<and> createdAt c' = createdAt c \<and> expiresAt c' = expiresAt c
           \<and> sourceFileIds c' = sourceFileIds c \<and> completedAt c' = completedAt c
           \<and> (pdf = None \<longrightarrow> pdfFileId c' = pdfFileId c)
           \<and> (stat = None \<longrightarrow> status c' = status c)
           \<and> (err = None \<or> err = Some [] \<longrightarrow> error c' = error c)
           \<and> updatedAt c' = now e
           \<and> (\<forall>j. j \<noteq> i \<longrightarrow> db_get st' j = db_get st j)"
proof -
  let ?p = "noFields\<lparr>p_pdfFileId := pdf, p_status := stat,
              p_error := (case err of None \<Rightarrow> None
                          | Some m \<Rightarrow> if m = [] then None else Some m),
              p_updatedAt := Some (now e)\<rparr>"
  from db_patch_result [OF assms, of ?p] obtain st' where
    "db_patch i ?p st = Inr st'" "db_get st' i = Some (applyPatch ?p c)"
    "\<forall>j. j \<noteq> i \<longrightarrow> db_get st' j = db_get st j" by blast
  then show ?thesis
    by (auto simp: updateConversionJob_def applyPatch_def noFields_def)
qed

lemma markConversionComplete_frame:
  assumes "db_get st i = Some c"
  shows "\<exists>st' c'. markConversionComplete e caller i success docx st = Inr st'
           \<and> db_get st' i = Some c'
           \<and> docId c' = docId c \<and> userId c' = userId c \<and> type c' = type c
           \<and> pdfFileId c' = pdfFileId c \<and> fileName c' = fileName c
           \<and> error c' = error c
           \<and> createdAt c' = createdAt c \<and> expiresAt c' = expiresAt c
           \<and> sourceFileIds c' = sourceFileIds c \<and> completedAt c' = completedAt c
           \<and> (docx = None \<longrightarrow> docxFileId c' = docxFileId c)
           \<and> updatedAt c' = now e
           \<and> (\<forall>j. j \<noteq> i \<longrightarrow> db_get st' j = db_get st j)"
proof -
  let ?q = "noFields\<lparr>p_status := Some (if success then Completed else Failed),
              p_docxFileId := docx, p_updatedAt := Some (now e)\<rparr>"
  from db_patch_result [OF assms, of ?q] obtain st' where
    "db_patch i ?q st = Inr st'" "db_get st' i = Some (applyPatch ?q c)"
    "\<forall>j. j \<noteq> i \<longrightarrow> db_get st' j = db_get st j" by blast
  with assms show ?thesis
    by (auto simp: markConversionComplete_def applyPatch_def noFields_def)
qed

text \<open>
  C9, as the code has it: a patch call leaves every field other than \<open>updatedAt\<close>
  that it is not given as it was, and always sets \<open>updatedAt\<close> to the current time,
  which no caller supplies. For a job \<open>c\<close> stored under \<open>i\<close>,
  \<open>updateConversionJob\<close> writes, when given (and, for \<open>error\<close>, not empty),
  \<open>pdfFileId\<close>, \<open>status\<close> and \<open>error\<close>; \<open>markConversionComplete\<close> writes
  \<open>status\<close> and, when given, \<open>docxFileId\<close>. Both succeed, every other field of the
  job but \<open>updatedAt\<close> is the same afterwards as before, and every other job is
  untouched.
\<close>

theorem patch_leaves_other_fields:
  assumes "db_get st i = Some c"
  shows "(\<exists>st' c'. updateConversionJob e caller i pdf stat err st = Inr st'
           \<and> db_get st' i = Some c'
           \<and> docId c' = docId c \<and> userId c' = userId c \<and> type c' = type c
           \<and> docxFileId c' = docxFileId c \<and> fileName c' = fileName c
           \<and> createdAt c' = createdAt c \<and> expiresAt c' = expiresAt c
           \<and> sourceFileIds c' = sourceFileIds c \<and> completedAt c' = completedAt c
           \<and> (pdf = None \<longrightarrow> pdfFileId c' = pdfFileId c)
           \<and> (stat = None \<longrightarrow> status c' = status c)
           \<and> (err = None \<or> err = Some [] \<longrightarrow> error c' = error c)
           \<and> updatedAt c' = now e
           \<and> (\<forall>j. j \<noteq> i \<longrightarrow> db_get st' j = db_get st j))
       \<and> (\<exists>st' c'. markConversionComplete e caller i success docx st = Inr st'
           \<and> db_get st' i = Some c'
           \<and> docId c' = docId c \<and> userId c' = userId c \<and> type c' = type c
           \<and> pdfFileId c' = pdfFileId c \<and> fileName c' = fileName c
           \<and> error c' = error c
           \<and> createdAt c' = createdAt c \<and> expiresAt c' = expiresAt c
           \<and> sourceFileIds c' = sourceFileIds c \<and> completedAt c' = completedAt c
           \<and> (docx = None \<longrightarrow> docxFileId c' = docxFileId c)
           \<and> updatedAt c' = now e
           \<and> (\<forall>j. j \<noteq> i \<longrightarrow> db_get st' j = db_get st j))"
  by (rule conjI [OF updateConversionJob_frame [OF assms]
        markConversionComplete_frame [OF assms]])

text \<open>
  The frame of a patch on Alice's job: after either call the owner, the type, the source
  PDF, the file name and the time stamps of creation and expiry are what they were, and
  \<open>updatedAt\<close> is the time of the call.
\<close>

theorem patch_leaves_other_fields_witness:
  "db_get aliceState 0 = Some (hd (conversions aliceState))
   \<and> (\<exists>st' c'. updateConversionJob exampleEnv None 0 None (Some Failed) (Some ''boom'') aliceState = Inr st'
        \<and> db_get st' 0 = Some c' \<and> userId c' = ''alice'' \<and> type c' = PdfToWord
        \<and> pdfFileId c' = Some 1 \<and> docxFileId c' = None \<and> fileName c' = ''a.pdf''
        \<and> createdAt c' = 9000000 \<and> expiresAt c' = 12600000 \<and> updatedAt c' = 10000000)
   \<and> (\<exists>st' c'. markConversionComplete exampleEnv None 0 False None aliceState = Inr st'
        \<and> db_get st' 0 = Some c' \<and> userId c' = ''alice'' \<and> type c' = PdfToWord
        \<and> pdfFileId c' = Some 1 \<and> docxFileId c' = None \<and> error c' = None
        \<and> fileName c' = ''a.pdf'' \<and> createdAt c' = 9000000 \<and> expiresAt c' = 12600000
        \<and> updatedAt c' = 10000000)"
proof -
  have h: "db_get aliceState 0 = Some (hd (conversions aliceState))"
    by (simp add: db_get_def aliceState_def newConversion_def)
  have v: "userId (hd (conversions aliceState)) = ''alice''"
    "type (hd (conversions aliceState)) = PdfToWord"
    "pdfFileId (hd (conversions aliceState)) = Some 1"
    "docxFileId (hd (conversions aliceState)) = None"
    "error (hd (conversions aliceState)) = None"
    "fileName (hd (conversions aliceState)) = ''a.pdf''"
    "createdAt (hd (conversions aliceState)) = 9000000"
    "expiresAt (hd (conversions aliceState)) = 12600000"
    by (simp_all add: aliceState_def newConversion_def exampleEnv_def)
  have n: "now exampleEnv = 10000000" by (simp add: exampleEnv_def)
  from patch_leaves_other_fields
    [OF h, of exampleEnv None None "Some Failed" "Some ''boom''" False None]
  show ?thesis using h by (elim conjE exE) (simp add: v n)
qed

text \<open>
  C9 as stated fails: \<open>updateConversionJob\<close> called with the job id alone, and
  \<open>markConversionComplete\<close> called without a result blob, both move \<open>updatedAt\<close>
  of Alice's job from 9000000 to 10000000, a field neither call was given.
\<close>

theorem patch_moves_updatedAt:
  "map_option updatedAt (db_get aliceState 0) = Some 9000000
   \<and> (case updateConversionJob exampleEnv None 0 None None None aliceState of
         Inl m \<Rightarrow> False
       | Inr st' \<Rightarrow> map_option updatedAt (db_get st' 0) = Some 10000000)
   \<and> (case markConversionComplete exampleEnv None 0 False None aliceState of
         Inl m \<Rightarrow> False
       | Inr st' \<Rightarrow> map_option updatedAt (db_get st' 0) = Some 10000000)"
  by (simp add: updateConversionJob_def markConversionComplete_def db_patch_def db_get_def
      aliceState_def exampleEnv_def newConversion_def applyPatch_def noFields_def)

section \<open>The failure path of convertPdfToWord\<close>

text \<open>
  C1, at the input where it fails: Alice's \<open>pdf_to_word\<close> job is run with no API key
  configured. The action throws the message about the missing key and the job ends
  \<open>failed\<close> with no result blob, but its \<open>error\<close> field is still absent:
  \<open>markConversionComplete\<close> has no way to record a message.
\<close>

theorem convertPdfToWord_missing_key_no_error:
  "(case convertPdfToWord exampleEnv None 0 aliceState of
      (r, st') \<Rightarrow>
        r = Inl ''Cloudmersive API key not found in environment variables''
        \<and> map_option status (db_get st' 0) = Some Failed
        \<and> map_option error (db_get st' 0) = Some None
        \<and> map_option docxFileId (db_get st' 0) = Some None)"
  by (simp add: convertPdfToWord_def convertPdfToWordTry_def getConversion_def db_get_def
      aliceState_def exampleEnv_def newConversion_def falsy_def storage_getUrl_def
      markConversionComplete_def db_patch_def applyPatch_def noFields_def)

section \<open>The sweep of expired conversions\<close>

text \<open>
  C4, at the input where it fails: one sweep over Alice's expired \<open>image_to_pdf\<close>
  job deletes the job record and its result blob 3, and counts one deletion, but the
  source blobs 1 and 2 of the job are still retrievable afterwards.
\<close>

theorem cleanup_keeps_source_blobs:
  "(case cleanupExpiredConversions exampleEnv expiredState of
      (deletedCount, st') \<Rightarrow>
        deletedCount = 1 \<and> db_get st' 0 = None
        \<and> storage_getUrl exampleEnv st' 3 = None
        \<and> storage_getUrl exampleEnv st' 1 = Some ''blob/1''
        \<and> storage_getUrl exampleEnv st' 2 = Some ''blob/2'')"
  by (simp add: cleanupExpiredConversions_def cleanupOne_def storage_delete_def
      db_delete_def db_get_def expiredState_def exampleEnv_def newConversion_def
      storage_getUrl_def digitChar_def)

section \<open>Who can read a job\<close>

lemma storage_getUrl_files:
  "files st = files st' \<Longrightarrow> storage_getUrl e st = storage_getUrl e st'"
  by (simp add: fun_eq_iff storage_getUrl_def)

lemma listedWithUrls_files:
  "files st = files st' \<Longrightarrow> listedWithUrls e st c = listedWithUrls e st' c"
  using storage_getUrl_files [of st st' e] by (simp add: listedWithUrls_def cong: option.case_cong)

lemma getConversion_any_caller:
  "getConversion e caller i st = getConversion e caller' i st"
  by (simp add: getConversion_def)

lemma getConversion_Some:
  "db_get st i = Some c \<Longrightarrow> \<exists>r. getConversion e caller i st = Some r \<and> resultDoc r = c"
  by (simp add: getConversion_def Let_def)

text \<open>
  C2, as the code has it: \<open>listConversions\<close> returns only jobs of the caller and of
  the type asked for, and its result for a caller is the same in two states that have
  the same blobs and differ only in the jobs of other users. \<open>getConversion\<close> makes
  no ownership check: its result does not depend on the caller, it is \<open>null\<close>
  exactly when no job is stored under the id, and otherwise it carries that job, whoever
  owns it.
\<close>

theorem listConversions_owner_only_getConversion_any_caller:
  "(\<forall>r \<in> set (listConversions e caller ty st). caller = Some (userId (listedDoc r)) \<and> type (listedDoc r) = ty)
   \<and> (filter (\<lambda>c. userId c = u) (conversions st) = filter (\<lambda>c. userId c = u) (conversions st')
        \<and> files st = files st'
      \<longrightarrow> listConversions e (Some u) ty st = listConversions e (Some u) ty st')
   \<and> getConversion e caller i st = getConversion e None i st
   \<and> (db_get st i = None \<longrightarrow> getConversion e caller i st = None)
   \<and> (\<forall>c. db_get st i = Some c \<longrightarrow> (\<exists>r. getConversion e caller i st = Some r \<and> resultDoc r = c))"
proof (intro conjI)
  show "\<forall>r \<in> set (listConversions e caller ty st). caller = Some (userId (listedDoc r)) \<and> type (listedDoc r) = ty"
    by (auto simp: listConversions_def listedWithUrls_def falsy_def split: option.splits)
next
  show "filter (\<lambda>c. userId c = u) (conversions st) = filter (\<lambda>c. userId c = u) (conversions st')
        \<and> files st = files st'
      \<longrightarrow> listConversions e (Some u) ty st = listConversions e (Some u) ty st'"
  proof
    assume a: "filter (\<lambda>c. userId c = u) (conversions st) = filter (\<lambda>c. userId c = u) (conversions st')
        \<and> files st = files st'"
    have "filter (\<lambda>c. userId c = u \<and> type c = ty) (conversions st)
        = filter (\<lambda>c. type c = ty) (filter (\<lambda>c. userId c = u) (conversions st))"
      by (simp add: conj_commute)
    also have "\<dots> = filter (\<lambda>c. type c = ty) (filter (\<lambda>c. userId c = u) (conversions st'))"
      using a by (simp only:)
    also have "\<dots> = filter (\<lambda>c. userId c = u \<and> type c = ty) (conversions st')"
      by (simp add: conj_commute)
    finally have f: "filter (\<lambda>c. userId c = u \<and> type c = ty) (conversions st)
        = filter (\<lambda>c. userId c = u \<and> type c = ty) (conversions st')" .
    have l: "listedWithUrls e st = listedWithUrls e st'"
      using a by (auto simp: fun_eq_iff intro: listedWithUrls_files)
    show "listConversions e (Some u) ty st = listConversions e (Some u) ty st'"
      by (simp add: listConversions_def f l)
  qed
next
  show "getConversion e caller i st = getConversion e None i st"
    by (rule getConversion_any_caller)
next
  show "db_get st i = None \<longrightarrow> getConversion e caller i st = None"
    by (simp add: getConversion_def)
next
  show "\<forall>c. db_get st i = Some c \<longrightarrow> (\<exists>r. getConversion e caller i st = Some r \<and> resultDoc r = c)"
    using getConversion_Some by blast
qed

text \<open>
  In the state with Alice's and Bob's jobs, Bob lists exactly his own job, and lists the
  same when Alice's job is removed; \<open>getConversion\<close> hands him Alice's job.
\<close>

theorem listConversions_owner_only_getConversion_any_caller_witness:
  "map (docId \<circ> listedDoc) (listConversions exampleEnv (Some ''bob'') ImageToPdf twoUsersState) = [1]
   \<and> listConversions exampleEnv (Some ''bob'') ImageToPdf twoUsersState
       = listConversions exampleEnv (Some ''bob'') ImageToPdf
           (twoUsersState\<lparr>conversions := tl (conversions twoUsersState)\<rparr>)
   \<and> map_option (userId \<circ> resultDoc) (getConversion exampleEnv (Some ''bob'') 0 twoUsersState)
       = Some ''alice''"
proof -
  have h: "filter (\<lambda>c. userId c = ''bob'') (conversions twoUsersState)
      = filter (\<lambda>c. userId c = ''bob'')
          (conversions (twoUsersState\<lparr>conversions := tl (conversions twoUsersState)\<rparr>))
      \<and> files twoUsersState = files (twoUsersState\<lparr>conversions := tl (conversions twoUsersState)\<rparr>)"
    by (simp add: twoUsersState_def newConversion_def)
  have a: "map (docId \<circ> listedDoc) (listConversions exampleEnv (Some ''bob'') ImageToPdf twoUsersState) = [1]"
    by (simp add: twoUsersState_def listConversions_def falsy_def newConversion_def listedWithUrls_def)
  have g: "db_get twoUsersState 0 = Some (hd (conversions twoUsersState))"
    by (simp add: twoUsersState_def db_get_def newConversion_def)
  have u: "userId (hd (conversions twoUsersState)) = ''alice''"
    by (simp add: twoUsersState_def newConversion_def)
  from listConversions_owner_only_getConversion_any_caller [of exampleEnv "Some ''bob''" ImageToPdf twoUsersState "''bob''"
      "twoUsersState\<lparr>conversions := tl (conversions twoUsersState)\<rparr>" 0]
  have "listConversions exampleEnv (Some ''bob'') ImageToPdf twoUsersState
       = listConversions exampleEnv (Some ''bob'') ImageToPdf
           (twoUsersState\<lparr>conversions := tl (conversions twoUsersState)\<rparr>)"
    and "\<exists>r. getConversion exampleEnv (Some ''bob'') 0 twoUsersState = Some r
           \<and> resultDoc r = hd (conversions twoUsersState)"
    using h g by blast+
  then show ?thesis using a u by auto
qed

text \<open>
  C2 as stated fails: Bob, who is not the owner, reads Alice's job through
  \<open>getConversion\<close>, and what he reads changes when only Alice's job changes.
\<close>

theorem getConversion_shows_job_to_non_owner:
  "map_option (userId \<circ> resultDoc) (getConversion exampleEnv (Some ''bob'') 0 aliceState)
     = Some ''alice''
   \<and> getConversion exampleEnv (Some ''bob'') 0 aliceState
      \<noteq> getConversion exampleEnv (Some ''bob'') 0
           (aliceState\<lparr>conversions :=
              map (\<lambda>c. c\<lparr>fileName := ''secret.pdf''\<rparr>) (conversions aliceState)\<rparr>)"
  by (simp add: getConversion_def db_get_def aliceState_def newConversion_def
      storage_getUrl_def exampleEnv_def)

section \<open>Where the source count of a merge is checked\<close>

lemma find_append_None:
  "find P xs = None \<Longrightarrow> find P (xs @ ys) = find P ys"
  by (induction xs) (auto split: if_splits)

lemma db_get_insert:
  assumes "list_all (\<lambda>c. docId c < nextDocId st) (conversions st)"
  shows "db_get (snd (db_insert c st)) (nextDocId st) = Some (c\<lparr>docId := nextDocId st\<rparr>)"
proof -
  have "find (\<lambda>c. docId c = nextDocId st) (conversions st) = None"
    using assms by (auto simp: find_None_iff list_all_iff)
  then show ?thesis
    by (simp add: db_insert_def db_get_def find_append_None)
qed

text \<open>
  C3, as the code has it: for an authenticated caller \<open>startPdfMergerConversion\<close>
  raises nothing when given fewer than two sources. It stores a \<open>processing\<close> job
  over those sources, schedules \<open>mergePdfFiles\<close> for it and returns the job id. The
  count is checked by the scheduled \<open>mergePdfFiles\<close>, which throws
  \<open>At least two PDF files are required for merging\<close> and records that message on
  the job, now \<open>failed\<close>. (The ids in use are below the counter the next id is
  drawn from.)
\<close>

theorem merge_source_count_checked_in_background:
  assumes "\<not> falsy caller" and "length srcs < 2"
    and "list_all (\<lambda>c. docId c < nextDocId st) (conversions st)"
  shows "\<exists>i st1 c. startPdfMergerConversion e caller srcs name st = Inr (i, st1)
           \<and> scheduled st1 = scheduled st @ [MergePdfFiles i]
           \<and> db_get st1 i = Some c \<and> status c = Processing \<and> error c = None
           \<and> sourceFileIds c = Some srcs
           \<and> (\<exists>st2 c'. mergePdfFiles e' caller' i st1
                  = (Inl ''At least two PDF files are required for merging'', st2)
                \<and> db_get st2 i = Some c' \<and> status c' = Failed
                \<and> error c' = Some ''At least two PDF files are required for merging''
                \<and> pdfFileId c' = None)"
proof -
  let ?c = "(newConversion e (the caller) PdfMerger None (Some srcs) name)\<lparr>docId := nextDocId st\<rparr>"
  let ?i = "nextDocId st"
  let ?st0 = "snd (db_insert (newConversion e (the caller) PdfMerger None (Some srcs) name) st)"
  let ?st1 = "scheduler_runAfter (MergePdfFiles ?i) ?st0"
  have start: "startPdfMergerConversion e caller srcs name st = Inr (?i, ?st1)"
    using assms(1) by (simp add: startPdfMergerConversion_def db_insert_def)
  have get: "db_get ?st1 ?i = Some ?c"
    using db_get_insert [OF assms(3)] by (simp add: scheduler_runAfter_def db_get_def)
  have sched: "scheduled ?st1 = scheduled st @ [MergePdfFiles ?i]"
    by (simp add: scheduler_runAfter_def db_insert_def)
  have tried: "mergePdfFilesTry e' caller' ?i ?st1
      = Inl (''At least two PDF files are required for merging'', ?st1)"
    using get assms(2) by (simp add: mergePdfFilesTry_def getConversion_def Let_def newConversion_def)
  from updateConversionJob_frame [OF get, of e' caller' None "Some Failed"
      "Some ''At least two PDF files are required for merging''"]
  obtain st2 c' where upd: "updateConversionJob e' caller' ?i None (Some Failed)
      (Some ''At least two PDF files are required for merging'') ?st1 = Inr st2"
    and c': "db_get st2 ?i = Some c'" "pdfFileId c' = pdfFileId ?c" by auto
  have fields: "status c' = Failed" "error c' = Some ''At least two PDF files are required for merging''"
    using upd c'(1) get
    by (auto simp: updateConversionJob_def db_patch_def db_get_def find_map_docId docId_applyPatch
        applyPatch_def noFields_def)
  have merge: "mergePdfFiles e' caller' ?i ?st1
      = (Inl ''At least two PDF files are required for merging'', st2)"
    by (simp add: mergePdfFiles_def tried upd)
  show ?thesis
    using start get sched merge c' fields by (simp add: newConversion_def)
qed

text \<open>Alice starts a merge over the single blob 1.\<close>

theorem merge_source_count_checked_in_background_witness:
  "\<not> falsy (Some ''alice'') \<and> length [1 :: nat] < 2
   \<and> list_all (\<lambda>c. docId c < nextDocId aliceState) (conversions aliceState)
   \<and> (\<exists>st1 c. startPdfMergerConversion exampleEnv (Some ''alice'') [1] ''one.pdf'' aliceState
                 = Inr (1, st1)
           \<and> scheduled st1 = [ConvertPdfToWord 0, MergePdfFiles 1]
           \<and> db_get st1 1 = Some c \<and> status c = Processing \<and> error c = None
           \<and> sourceFileIds c = Some [1]
           \<and> (\<exists>st2 c'. mergePdfFiles exampleEnv None 1 st1
                  = (Inl ''At least two PDF files are required for merging'', st2)
                \<and> db_get st2 1 = Some c' \<and> status c' = Failed
                \<and> error c' = Some ''At least two PDF files are required for merging''
                \<and> pdfFileId c' = None))"
proof -
  have h1: "\<not> falsy (Some ''alice'')" by (simp add: falsy_def)
  have h2: "length [1 :: nat] < 2" by simp
  have h3: "list_all (\<lambda>c. docId c < nextDocId aliceState) (conversions aliceState)"
    by (simp add: aliceState_def newConversion_def)
  have s: "scheduled aliceState = [ConvertPdfToWord 0]" by (simp add: aliceState_def)
  have i: "\<And>i st1. startPdfMergerConversion exampleEnv (Some ''alice'') [1] ''one.pdf'' aliceState = Inr (i, st1) \<Longrightarrow> i = 1"
    by (simp add: startPdfMergerConversion_def falsy_def db_insert_def aliceState_def)
  from merge_source_count_checked_in_background [OF h1 h2 h3, of exampleEnv "''one.pdf''" exampleEnv None]
  show ?thesis using h1 h2 h3 i by (auto simp: s)
qed

text \<open>
  C3 as stated fails: the creation operation returns a job id, not an error, for one
  source and for none.
\<close>

theorem startPdfMergerConversion_accepts_one_source:
  "\<not> isl (startPdfMergerConversion exampleEnv (Some ''alice'') [1] ''one.pdf'' aliceState)
   \<and> \<not> isl (startPdfMergerConversion exampleEnv (Some ''alice'') [] ''none.pdf'' aliceState)"
  by (simp add: startPdfMergerConversion_def falsy_def db_insert_def split_def Let_def)

section \<open>The fallback document\<close>

text \<open>
  The recursive equations of \<open>listUrls\<close> and \<open>string_of_nat\<close> are unfolded by
  hand from here on.
\<close>

declare listUrls.simps [simp del]
declare string_of_nat.simps [simp del]







section \<open>The merge of PDF files\<close>

lemma addPages_append: "addPages mergedPdf pages = mergedPdf @ pages"
  by (induction pages arbitrary: mergedPdf) auto

lemma mergeLoop_concat:
  "mergeLoop e pdfBuffers mergedPdf = mergedPdf @ concat (map (sourcePages e) pdfBuffers)"
  by (induction pdfBuffers arbitrary: mergedPdf)
     (auto simp: sourcePages_def addPages_append split: sum.splits)

lemma mapResult_pdfUrlFor:
  assumes "list_all (\<lambda>f. map_of (files st) f \<noteq> None \<and> storageUrl e f \<noteq> []) fs"
  shows "mapResult (pdfUrlFor e st) fs = Inr (map (storageUrl e) fs)"
  using assms
  by (induction fs) (auto simp: pdfUrlFor_def storage_getUrl_def falsy_def)

lemma mapResult_downloadPdf:
  assumes "list_all2 (\<lambda>f b. \<exists>r. fetch e (storageUrl e f) = Inr r \<and> ok r \<and> body r = b) fs bodies"
  shows "mapResult (downloadPdf e) (zip (map (storageUrl e) fs) [k ..< k + length fs]) = Inr bodies"
  using assms
proof (induction fs bodies arbitrary: k rule: list_all2_induct)
  case Nil
  then show ?case by simp
next
  case (Cons f fs b bodies)
  have "[k ..< k + length (f # fs)] = k # [Suc k ..< Suc k + length fs]"
    by (simp add: upt_conv_Cons del: upt_Suc)
  with Cons.hyps(1) Cons.IH [of "Suc k"] show ?case
    by (auto simp: downloadPdf_def simp del: upt_Suc)
qed

lemma updateConversionJob_result:
  assumes "db_get st i = Some c"
  shows "\<exists>st'. updateConversionJob e caller i pdf stat err st = Inr st'
           \<and> db_get st' i
               = Some (applyPatch (noFields\<lparr>p_pdfFileId := pdf, p_status := stat,
                    p_error := (case err of None \<Rightarrow> None
                                | Some m \<Rightarrow> if m = [] then None else Some m),
                    p_updatedAt := Some (now e)\<rparr>) c)
           \<and> files st' = files st"
  using db_patch_result [OF assms] by (simp add: updateConversionJob_def) blast

lemma mapResult_first_failure:
  "\<exists>x \<in> set xs. isl (f x) \<Longrightarrow> \<exists>x \<in> set xs. \<exists>m. f x = Inl m \<and> mapResult f xs = Inl m"
proof (induction xs)
  case Nil
  then show ?case by simp
next
  case (Cons x xs)
  show ?case
  proof (cases "f x")
    case (Inl m)
    then show ?thesis by auto
  next
    case (Inr y)
    with Cons.prems have "\<exists>x \<in> set xs. isl (f x)" by auto
    from Cons.IH [OF this] obtain x' m where "x' \<in> set xs" "f x' = Inl m" "mapResult f xs = Inl m"
      by blast
    with Inr show ?thesis by auto
  qed
qed

lemma mergePdfFiles_failed:
  assumes get: "db_get st i = Some c"
    and tried: "mergePdfFilesTry e caller i st = Inl (m, st)"
  shows "\<exists>st' c'. mergePdfFiles e caller i st = (Inl m, st') \<and> db_get st' i = Some c'
           \<and> status c' = Failed \<and> pdfFileId c' = pdfFileId c
           \<and> (m \<noteq> [] \<longrightarrow> error c' = Some m)"
proof -
  from updateConversionJob_result [OF get, of e caller None "Some Failed" "Some m"]
  obtain st' where u: "updateConversionJob e caller i None (Some Failed) (Some m) st = Inr st'"
    and g: "db_get st' i = Some (applyPatch (noFields\<lparr>p_pdfFileId := None,
        p_status := Some Failed,
        p_error := (case Some m of None \<Rightarrow> None | Some m \<Rightarrow> if m = [] then None else Some m),
        p_updatedAt := Some (now e)\<rparr>) c)" by blast
  have "mergePdfFiles e caller i st = (Inl m, st')"
    using tried u by (simp add: mergePdfFiles_def)
  with g show ?thesis by (auto simp: applyPatch_def noFields_def)
qed

lemma mergePdfFiles_missing_blob:
  assumes job: "db_get st i = Some c" "sourceFileIds c = Some fs" "2 \<le> length fs"
    and missing: "\<exists>f \<in> set fs. map_of (files st) f = None"
  shows "\<exists>f \<in> set fs. \<exists>st' c'.
           mergePdfFiles e caller i st
             = (Inl (''PDF file not found for ID: '' @ string_of_nat f), st')
           \<and> db_get st' i = Some c' \<and> status c' = Failed
           \<and> error c' = Some (''PDF file not found for ID: '' @ string_of_nat f)
           \<and> pdfFileId c' = pdfFileId c"
proof -
  from missing obtain f0 where f0: "f0 \<in> set fs" "map_of (files st) f0 = None" by blast
  then have "isl (pdfUrlFor e st f0)"
    by (simp add: pdfUrlFor_def storage_getUrl_def falsy_def)
  with f0(1) have "\<exists>f \<in> set fs. isl (pdfUrlFor e st f)" by blast
  from mapResult_first_failure [OF this] obtain f m where
    f: "f \<in> set fs" "pdfUrlFor e st f = Inl m" "mapResult (pdfUrlFor e st) fs = Inl m" by blast
  from f(2) have m: "m = ''PDF file not found for ID: '' @ string_of_nat f"
    by (auto simp: pdfUrlFor_def split: if_splits)
  from getConversion_Some [OF job(1), of e caller]
  obtain r where conv: "getConversion e caller i st = Some r" "resultDoc r = c" by blast
  have "mergePdfFilesTry e caller i st = Inl (m, st)"
    using job(2,3) by (simp add: mergePdfFilesTry_def conv f(3))
  from mergePdfFiles_failed [OF job(1) this] obtain st' c' where
    "mergePdfFiles e caller i st = (Inl m, st')" "db_get st' i = Some c'" "status c' = Failed"
    "pdfFileId c' = pdfFileId c" "m \<noteq> [] \<longrightarrow> error c' = Some m" by blast
  with f(1) m show ?thesis by auto
qed

lemma mergePdfFiles_failed_download:
  assumes job: "db_get st i = Some c" "sourceFileIds c = Some fs" "2 \<le> length fs"
    and stored: "list_all (\<lambda>f. map_of (files st) f \<noteq> None \<and> storageUrl e f \<noteq> []) fs"
    and bad: "\<exists>f \<in> set fs. (case fetch e (storageUrl e f) of Inl m \<Rightarrow> True | Inr r \<Rightarrow> \<not> ok r)"
  shows "\<exists>m st' c'. mergePdfFiles e caller i st = (Inl m, st')
           \<and> db_get st' i = Some c' \<and> status c' = Failed \<and> pdfFileId c' = pdfFileId c"
proof -
  let ?jobs = "zip (map (storageUrl e) fs) [0 ..< length (map (storageUrl e) fs)]"
  from bad obtain f where f: "f \<in> set fs"
    "case fetch e (storageUrl e f) of Inl m \<Rightarrow> True | Inr r \<Rightarrow> \<not> ok r" by blast
  then obtain k where k: "k < length fs" "fs ! k = f" by (auto simp: in_set_conv_nth)
  then have "(storageUrl e f, k) \<in> set ?jobs"
    by (auto simp: set_zip intro!: exI [of _ k])
  moreover have "isl (downloadPdf e (storageUrl e f, k))"
    using f(2) by (auto simp: downloadPdf_def split: sum.splits)
  ultimately have "\<exists>x \<in> set ?jobs. isl (downloadPdf e x)" by blast
  from mapResult_first_failure [OF this] obtain m where
    dl: "mapResult (downloadPdf e) ?jobs = Inl m" by blast
  from getConversion_Some [OF job(1), of e caller]
  obtain r where conv: "getConversion e caller i st = Some r" "resultDoc r = c" by blast
  have "mergePdfFilesTry e caller i st = Inl (m, st)"
    using job(2,3) dl by (simp add: mergePdfFilesTry_def conv mapResult_pdfUrlFor [OF stored])
  from mergePdfFiles_failed [OF job(1) this] show ?thesis by blast
qed

lemma mergePdfFiles_completed:
  assumes job: "db_get st i = Some c" "sourceFileIds c = Some fs" "2 \<le> length fs"
    and stored: "list_all (\<lambda>f. map_of (files st) f \<noteq> None \<and> storageUrl e f \<noteq> []) fs"
    and downloads:
      "list_all2 (\<lambda>f b. \<exists>r. fetch e (storageUrl e f) = Inr r \<and> ok r \<and> body r = b) fs bodies"
    and fresh: "map_of (files st) (nextStorageId st) = None"
  shows "mergeLoop e bodies [] = concat (map (sourcePages e) bodies)
       \<and> (\<exists>st' c'. mergePdfFiles e caller i st = (Inr (nextStorageId st), st')
            \<and> map_of (files st') (nextStorageId st)
                = Some (pdfLibSave e (concat (map (sourcePages e) bodies)))
            \<and> db_get st' i = Some c' \<and> status c' = Completed
            \<and> pdfFileId c' = Some (nextStorageId st) \<and> sourceFileIds c' = Some fs)"
proof
  show loop: "mergeLoop e bodies [] = concat (map (sourcePages e) bodies)"
    by (simp add: mergeLoop_concat)
  let ?bytes = "pdfLibSave e (concat (map (sourcePages e) bodies))"
  let ?n = "nextStorageId st"
  let ?st1 = "st\<lparr>files := files st @ [(?n, ?bytes)], nextStorageId := Suc ?n\<rparr>"
  have st1: "storage_store ?bytes st = (?n, ?st1)"
    by (simp add: storage_store_def)
  have get1: "db_get ?st1 i = Some c"
    using job(1) by (simp add: db_get_def storage_store_def)
  from db_patch_result [OF get1, of "noFields\<lparr>p_pdfFileId := Some ?n, p_status := Some Completed,
      p_error := None, p_updatedAt := Some (now e)\<rparr>"]
  obtain st2 where st2: "updateConversionJob e caller i (Some ?n) (Some Completed) None ?st1 = Inr st2"
    and get2: "db_get st2 i = Some (applyPatch (noFields\<lparr>p_pdfFileId := Some ?n,
        p_status := Some Completed, p_error := None, p_updatedAt := Some (now e)\<rparr>) c)"
    and files2: "files st2 = files ?st1"
    by (auto simp: updateConversionJob_def)
  have len: "length (map (storageUrl e) fs) = length fs" by simp
  have dl: "mapResult (downloadPdf e) (zip (map (storageUrl e) fs) [0 ..< length (map (storageUrl e) fs)])
      = Inr bodies"
    using mapResult_downloadPdf [OF downloads, of 0] by simp
  from getConversion_Some [OF job(1), of e caller]
  obtain r where conv: "getConversion e caller i st = Some r" "resultDoc r = c" by blast
  have tried: "mergePdfFilesTry e caller i st = Inr (?n, st2)"
    using job(2,3) dl
    by (simp add: mergePdfFilesTry_def conv mapResult_pdfUrlFor [OF stored] loop st1 st2)
  have "mergePdfFiles e caller i st = (Inr ?n, st2)"
    by (simp add: mergePdfFiles_def tried)
  moreover have "map_of (files st2) ?n = Some ?bytes"
    using fresh by (simp add: files2 map_add_def)
  moreover have "status (applyPatch (noFields\<lparr>p_pdfFileId := Some ?n,
        p_status := Some Completed, p_error := None, p_updatedAt := Some (now e)\<rparr>) c) = Completed"
    "pdfFileId (applyPatch (noFields\<lparr>p_pdfFileId := Some ?n,
        p_status := Some Completed, p_error := None, p_updatedAt := Some (now e)\<rparr>) c) = Some ?n"
    "sourceFileIds (applyPatch (noFields\<lparr>p_pdfFileId := Some ?n,
        p_status := Some Completed, p_error := None, p_updatedAt := Some (now e)\<rparr>) c) = Some fs"
    using job(2) by (simp_all add: applyPatch_def noFields_def)
  ultimately show "\<exists>st' c'. mergePdfFiles e caller i st = (Inr (nextStorageId st), st')
            \<and> map_of (files st') (nextStorageId st)
                = Some (pdfLibSave e (concat (map (sourcePages e) bodies)))
            \<and> db_get st' i = Some c' \<and> status c' = Completed
            \<and> pdfFileId c' = Some (nextStorageId st) \<and> sourceFileIds c' = Some fs"
    using get2 by blast
qed

text \<open>
  C5, as the code has it. The merge loop yields the pages of every source pdf-lib can
  load, each source's pages in their own order and the sources in the order given; a
  source it cannot load adds nothing. For a job whose two or more sources are all in
  the blob store and all download (\<open>bodies\<close> are the downloaded contents, in the
  order of \<open>sourceFileIds\<close>), the action stores that document under a fresh id and
  the job ends \<open>completed\<close> with that id as its \<open>pdfFileId\<close>, whether or not every
  source could be loaded. A source that is not in the blob store, or whose download
  throws or is answered with an error status, is not skipped: the action throws before
  the loop and the job ends \<open>failed\<close> with no result blob, in the first case with the
  message \<open>PDF file not found for ID\<close> and the id.
\<close>

theorem mergePdfFiles_skips_unreadable_fails_on_missing:
  "mergeLoop e bodies [] = concat (map (sourcePages e) bodies)
   \<and> (db_get st i = Some c \<and> sourceFileIds c = Some fs \<and> 2 \<le> length fs
        \<and> list_all (\<lambda>f. map_of (files st) f \<noteq> None \<and> storageUrl e f \<noteq> []) fs
        \<and> list_all2 (\<lambda>f b. \<exists>r. fetch e (storageUrl e f) = Inr r \<and> ok r \<and> body r = b) fs bodies
        \<and> map_of (files st) (nextStorageId st) = None
      \<longrightarrow> (\<exists>st' c'. mergePdfFiles e caller i st = (Inr (nextStorageId st), st')
            \<and> map_of (files st') (nextStorageId st)
                = Some (pdfLibSave e (concat (map (sourcePages e) bodies)))
            \<and> db_get st' i = Some c' \<and> status c' = Completed
            \<and> pdfFileId c' = Some (nextStorageId st) \<and> sourceFileIds c' = Some fs))
   \<and> (db_get st i = Some c \<and> sourceFileIds c = Some fs \<and> 2 \<le> length fs
        \<and> (\<exists>f \<in> set fs. map_of (files st) f = None)
      \<longrightarrow> (\<exists>f \<in> set fs. \<exists>st' c'.
             mergePdfFiles e caller i st
               = (Inl (''PDF file not found for ID: '' @ string_of_nat f), st')
             \<and> db_get st' i = Some c' \<and> status c' = Failed
             \<and> error c' = Some (''PDF file not found for ID: '' @ string_of_nat f)
             \<and> pdfFileId c' = pdfFileId c))
   \<and> (db_get st i = Some c \<and> sourceFileIds c = Some fs \<and> 2 \<le> length fs
        \<and> list_all (\<lambda>f. map_of (files st) f \<noteq> None \<and> storageUrl e f \<noteq> []) fs
        \<and> (\<exists>f \<in> set fs. (case fetch e (storageUrl e f) of Inl m \<Rightarrow> True | Inr r \<Rightarrow> \<not> ok r))
      \<longrightarrow> (\<exists>m st' c'. mergePdfFiles e caller i st = (Inl m, st')
             \<and> db_get st' i = Some c' \<and> status c' = Failed \<and> pdfFileId c' = pdfFileId c))"
proof (intro conjI impI)
  show "mergeLoop e bodies [] = concat (map (sourcePages e) bodies)"
    by (simp add: mergeLoop_concat)
next
  assume "db_get st i = Some c \<and> sourceFileIds c = Some fs \<and> 2 \<le> length fs
        \<and> list_all (\<lambda>f. map_of (files st) f \<noteq> None \<and> storageUrl e f \<noteq> []) fs
        \<and> list_all2 (\<lambda>f b. \<exists>r. fetch e (storageUrl e f) = Inr r \<and> ok r \<and> body r = b) fs bodies
        \<and> map_of (files st) (nextStorageId st) = None"
  then show "\<exists>st' c'. mergePdfFiles e caller i st = (Inr (nextStorageId st), st')
            \<and> map_of (files st') (nextStorageId st)
                = Some (pdfLibSave e (concat (map (sourcePages e) bodies)))
            \<and> db_get st' i = Some c' \<and> status c' = Completed
            \<and> pdfFileId c' = Some (nextStorageId st) \<and> sourceFileIds c' = Some fs"
    using mergePdfFiles_completed [of st i c fs e bodies caller] by blast
next
  assume "db_get st i = Some c \<and> sourceFileIds c = Some fs \<and> 2 \<le> length fs
        \<and> (\<exists>f \<in> set fs. map_of (files st) f = None)"
  then show "\<exists>f \<in> set fs. \<exists>st' c'.
             mergePdfFiles e caller i st
               = (Inl (''PDF file not found for ID: '' @ string_of_nat f), st')
             \<and> db_get st' i = Some c' \<and> status c' = Failed
             \<and> error c' = Some (''PDF file not found for ID: '' @ string_of_nat f)
             \<and> pdfFileId c' = pdfFileId c"
    using mergePdfFiles_missing_blob [of st i c fs e caller] by blast
next
  assume "db_get st i = Some c \<and> sourceFileIds c = Some fs \<and> 2 \<le> length fs
        \<and> list_all (\<lambda>f. map_of (files st) f \<noteq> None \<and> storageUrl e f \<noteq> []) fs
        \<and> (\<exists>f \<in> set fs. (case fetch e (storageUrl e f) of Inl m \<Rightarrow> True | Inr r \<Rightarrow> \<not> ok r))"
  then show "\<exists>m st' c'. mergePdfFiles e caller i st = (Inl m, st')
             \<and> db_get st' i = Some c' \<and> status c' = Failed \<and> pdfFileId c' = pdfFileId c"
    using mergePdfFiles_failed_download [of st i c fs e caller] by blast
qed

text \<open>
  C5 as stated fails: a source that cannot be opened or read is not always skipped. The
  merge over the blobs 1, 9 and 2, where blob 9 is missing, and the merge over the
  blobs 1, 4 and 2, where the download of blob 4 is answered 404, both end with the job
  \<open>failed\<close> and no result, although the other two sources are readable.
\<close>

theorem mergePdfFiles_missing_source_fails_job:
  "(case mergePdfFiles exampleEnv None 0 mergeMissingState of
      (r, st') \<Rightarrow> r = Inl ''PDF file not found for ID: 9''
        \<and> map_option status (db_get st' 0) = Some Failed
        \<and> map_option pdfFileId (db_get st' 0) = Some None)
   \<and> (case mergePdfFiles exampleEnv None 1 mergeMissingState of
         (r, st') \<Rightarrow> r = Inl ''Failed to download PDF 2: 404 Not Found''
           \<and> map_option status (db_get st' 1) = Some Failed
           \<and> map_option pdfFileId (db_get st' 1) = Some None)"
  by (simp add: mergePdfFiles_def mergePdfFilesTry_def getConversion_def db_get_def
      mergeMissingState_def newConversion_def storage_getUrl_def exampleEnv_def falsy_def
      pdfUrlFor_def downloadPdf_def truthyUrls_def updateConversionJob_def db_patch_def
      applyPatch_def noFields_def string_of_nat.simps digitChar_def upt_conv_Cons)

text \<open>
  Bob's merge of the two-page blob 1 and the five-page blob 2: seven pages, those of
  blob 1 first; the same seven pages when the unreadable blob 3 stands between them.
  His merge over the blobs 1, 9 and 2 fails on the missing blob.
\<close>

theorem mergePdfFiles_skips_unreadable_fails_on_missing_witness:
  "db_get mergeState 0 = Some (hd (conversions mergeState))
   \<and> sourceFileIds (hd (conversions mergeState)) = Some [1, 2]
   \<and> 2 \<le> length [1 :: nat, 2]
   \<and> list_all (\<lambda>f. map_of (files mergeState) f \<noteq> None \<and> storageUrl exampleEnv f \<noteq> []) [1, 2]
   \<and> list_all2 (\<lambda>f b. \<exists>r. fetch exampleEnv (storageUrl exampleEnv f) = Inr r \<and> ok r \<and> body r = b)
        [1, 2] [[1], [2]]
   \<and> map_of (files mergeState) (nextStorageId mergeState) = None
   \<and> mergeLoop exampleEnv [[1], [2]] []
       = [[DrawImage [11]], [DrawImage [12]], [DrawImage [21]], [DrawImage [22]],
          [DrawImage [23]], [DrawImage [24]], [DrawImage [25]]]
   \<and> length (mergeLoop exampleEnv [[1], [2]] []) = 7
   \<and> mergeLoop exampleEnv [[1], [3], [2]] [] = mergeLoop exampleEnv [[1], [2]] []
   \<and> (\<exists>st' c'. mergePdfFiles exampleEnv None 0 mergeState = (Inr 4, st')
          \<and> map_of (files st') 4 = Some [11, 12, 21, 22, 23, 24, 25]
          \<and> db_get st' 0 = Some c' \<and> status c' = Completed \<and> pdfFileId c' = Some 4)
   \<and> db_get mergeMissingState 0 = Some (hd (conversions mergeMissingState))
   \<and> sourceFileIds (hd (conversions mergeMissingState)) = Some [1, 9, 2]
   \<and> map_of (files mergeMissingState) 9 = None
   \<and> (\<exists>f st' c'. mergePdfFiles exampleEnv None 0 mergeMissingState
           = (Inl (''PDF file not found for ID: '' @ string_of_nat f), st')
          \<and> db_get st' 0 = Some c' \<and> status c' = Failed \<and> pdfFileId c' = None)"
proof -
  let ?c = "hd (conversions mergeState)"
  let ?d = "hd (conversions mergeMissingState)"
  have h1: "db_get mergeState 0 = Some ?c"
    by (simp add: db_get_def mergeState_def newConversion_def)
  have h2: "sourceFileIds ?c = Some [1, 2]"
    by (simp add: mergeState_def newConversion_def)
  have h3: "2 \<le> length [1 :: nat, 2]" by simp
  have h4: "list_all (\<lambda>f. map_of (files mergeState) f \<noteq> None \<and> storageUrl exampleEnv f \<noteq> []) [1, 2]"
    by (simp add: mergeState_def exampleEnv_def)
  have h5: "list_all2 (\<lambda>f b. \<exists>r. fetch exampleEnv (storageUrl exampleEnv f) = Inr r \<and> ok r \<and> body r = b)
        [1, 2] [[1], [2]]"
    by (simp add: exampleEnv_def string_of_nat.simps digitChar_def)
  have h6: "map_of (files mergeState) (nextStorageId mergeState) = None"
    by (simp add: mergeState_def)
  have g1: "db_get mergeMissingState 0 = Some ?d"
    by (simp add: db_get_def mergeMissingState_def newConversion_def)
  have g2: "sourceFileIds ?d = Some [1, 9, 2]"
    by (simp add: mergeMissingState_def newConversion_def)
  have g3: "2 \<le> length [1 :: nat, 9, 2]" by simp
  have g4: "map_of (files mergeMissingState) 9 = None" by (simp add: mergeMissingState_def)
  have g5: "pdfFileId ?d = None" by (simp add: mergeMissingState_def newConversion_def)
  have n: "nextStorageId mergeState = 4" by (simp add: mergeState_def)
  have p: "concat (map (sourcePages exampleEnv) [[1], [2]])
       = [[DrawImage [11]], [DrawImage [12]], [DrawImage [21]], [DrawImage [22]],
          [DrawImage [23]], [DrawImage [24]], [DrawImage [25]]]"
    "concat (map (sourcePages exampleEnv) [[1], [3], [2]])
       = [[DrawImage [11]], [DrawImage [12]], [DrawImage [21]], [DrawImage [22]],
          [DrawImage [23]], [DrawImage [24]], [DrawImage [25]]]"
    by (simp_all add: sourcePages_def exampleEnv_def)
  have s: "pdfLibSave exampleEnv [[DrawImage [11]], [DrawImage [12]], [DrawImage [21]], [DrawImage [22]],
          [DrawImage [23]], [DrawImage [24]], [DrawImage [25]]] = [11, 12, 21, 22, 23, 24, 25]"
    by (simp add: exampleEnv_def drawBytes_def)
  note a = mergePdfFiles_skips_unreadable_fails_on_missing [of exampleEnv "[[1], [2]]" mergeState 0 ?c "[1, 2]" None]
  note b = mergePdfFiles_skips_unreadable_fails_on_missing [of exampleEnv "[[1], [3], [2]]" mergeMissingState 0 ?d "[1, 9, 2]" None]
  from a have l1: "mergeLoop exampleEnv [[1], [2]] []
       = [[DrawImage [11]], [DrawImage [12]], [DrawImage [21]], [DrawImage [22]],
          [DrawImage [23]], [DrawImage [24]], [DrawImage [25]]]"
    unfolding p by blast
  from b have l2: "mergeLoop exampleEnv [[1], [3], [2]] []
       = [[DrawImage [11]], [DrawImage [12]], [DrawImage [21]], [DrawImage [22]],
          [DrawImage [23]], [DrawImage [24]], [DrawImage [25]]]"
    unfolding p by blast
  from a h1 h2 h3 h4 h5 h6 have ok: "\<exists>st' c'. mergePdfFiles exampleEnv None 0 mergeState = (Inr 4, st')
          \<and> map_of (files st') 4 = Some [11, 12, 21, 22, 23, 24, 25]
          \<and> db_get st' 0 = Some c' \<and> status c' = Completed \<and> pdfFileId c' = Some 4"
    unfolding n p s by blast
  have "\<exists>f \<in> set [1 :: nat, 9, 2]. map_of (files mergeMissingState) f = None"
    using g4 by simp
  with b g1 g2 g3 have "\<exists>f \<in> set [1 :: nat, 9, 2]. \<exists>st' c'.
      mergePdfFiles exampleEnv None 0 mergeMissingState
        = (Inl (''PDF file not found for ID: '' @ string_of_nat f), st')
      \<and> db_get st' 0 = Some c' \<and> status c' = Failed
      \<and> error c' = Some (''PDF file not found for ID: '' @ string_of_nat f)
      \<and> pdfFileId c' = pdfFileId ?d" by blast
  then have bad: "\<exists>f st' c'. mergePdfFiles exampleEnv None 0 mergeMissingState
           = (Inl (''PDF file not found for ID: '' @ string_of_nat f), st')
          \<and> db_get st' 0 = Some c' \<and> status c' = Failed \<and> pdfFileId c' = None"
    unfolding g5 by blast
  have l3: "length (mergeLoop exampleEnv [[1], [2]] []) = 7" unfolding l1 by simp
  have l4: "mergeLoop exampleEnv [[1], [3], [2]] [] = mergeLoop exampleEnv [[1], [2]] []"
    unfolding l1 l2 by simp
  from h1 h2 h3 h4 h5 h6 l1 l3 l4 ok g1 g2 g4 bad show ?thesis by (intro conjI)
qed

section \<open>Merging through the remote API\<close>

declare mergeBatches.simps [simp del]

lemma mergeBatches_stop:
  "\<not> i < length pdfPages \<Longrightarrow> mergeBatches api pdfPages i cur = ([], Inr cur)"
  by (subst mergeBatches.simps) simp

lemma mergeBatches_fail:
  "i < length pdfPages \<Longrightarrow> mergeDocumentPdfMulti api (cur # take 9 (drop i pdfPages)) = Inl m
     \<Longrightarrow> mergeBatches api pdfPages i cur = ([cur # take 9 (drop i pdfPages)], Inl m)"
  by (subst mergeBatches.simps) simp

lemma mergeBatches_step:
  "i < length pdfPages \<Longrightarrow> mergeDocumentPdfMulti api (cur # take 9 (drop i pdfPages)) = Inr merged
     \<Longrightarrow> mergeBatches api pdfPages i cur
         = ((cur # take 9 (drop i pdfPages)) # fst (mergeBatches api pdfPages (i + 9) merged),
            snd (mergeBatches api pdfPages (i + 9) merged))"
  by (subst mergeBatches.simps) (simp add: split_def)

lemma mergeBatches_calls:
  "list_all (\<lambda>c. 2 \<le> length c \<and> length c \<le> 10) (fst (mergeBatches api pdfPages i cur))
   \<and> (\<forall>j < length (fst (mergeBatches api pdfPages i cur)).
         tl (fst (mergeBatches api pdfPages i cur) ! j) = take 9 (drop (i + 9 * j) pdfPages))
   \<and> (fst (mergeBatches api pdfPages i cur) \<noteq> []
         \<longrightarrow> hd (hd (fst (mergeBatches api pdfPages i cur))) = cur)
   \<and> (\<forall>j. Suc j < length (fst (mergeBatches api pdfPages i cur)) \<longrightarrow>
         mergeDocumentPdfMulti api (fst (mergeBatches api pdfPages i cur) ! j)
           = Inr (hd (fst (mergeBatches api pdfPages i cur) ! Suc j)))"
proof (induction api pdfPages i cur rule: mergeBatches.induct)
  case (1 api pdfPages i cur)
  let ?inputs = "cur # take 9 (drop i pdfPages)"
  show ?case
  proof (cases "i < length pdfPages")
    case False
    then show ?thesis by (simp add: mergeBatches_stop)
  next
    case True
    then have len: "2 \<le> length ?inputs" "length ?inputs \<le> 10" by auto
    show ?thesis
    proof (cases "mergeDocumentPdfMulti api ?inputs")
      case (Inl m)
      with True len show ?thesis by (simp add: mergeBatches_fail)
    next
      case (Inr merged)
      let ?rest = "fst (mergeBatches api pdfPages (i + 9) merged)"
      have eq: "fst (mergeBatches api pdfPages i cur) = ?inputs # ?rest"
        using True Inr by (simp add: mergeBatches_step)
      from "1.IH" [OF True refl Inr] have
        a: "list_all (\<lambda>c. 2 \<le> length c \<and> length c \<le> 10) ?rest"
        and b: "\<forall>j < length ?rest. tl (?rest ! j) = take 9 (drop (i + 9 + 9 * j) pdfPages)"
        and c: "?rest \<noteq> [] \<longrightarrow> hd (hd ?rest) = merged"
        and d: "\<forall>j. Suc j < length ?rest \<longrightarrow>
                 mergeDocumentPdfMulti api (?rest ! j) = Inr (hd (?rest ! Suc j))"
        by blast+
      have A: "list_all (\<lambda>c. 2 \<le> length c \<and> length c \<le> 10) (?inputs # ?rest)"
        using a len by simp
      have B: "\<forall>j < length (?inputs # ?rest).
          tl ((?inputs # ?rest) ! j) = take 9 (drop (i + 9 * j) pdfPages)"
      proof (intro allI impI)
        fix j assume "j < length (?inputs # ?rest)"
        then show "tl ((?inputs # ?rest) ! j) = take 9 (drop (i + 9 * j) pdfPages)"
          using b by (cases j) (auto simp: add.assoc)
      qed
      have C: "hd (hd (?inputs # ?rest)) = cur" by simp
      have D: "\<forall>j. Suc j < length (?inputs # ?rest) \<longrightarrow>
          mergeDocumentPdfMulti api ((?inputs # ?rest) ! j) = Inr (hd ((?inputs # ?rest) ! Suc j))"
      proof (intro allI impI)
        fix j assume j: "Suc j < length (?inputs # ?rest)"
        show "mergeDocumentPdfMulti api ((?inputs # ?rest) ! j) = Inr (hd ((?inputs # ?rest) ! Suc j))"
        proof (cases j)
          case 0
          from j have "?rest \<noteq> []" by auto
          with c have "hd (?rest ! 0) = merged" by (simp add: hd_conv_nth)
          with 0 Inr show ?thesis by simp
        next
          case (Suc k)
          with j d show ?thesis by simp
        qed
      qed
      show ?thesis unfolding eq using A B C D by blast
    qed
  qed
qed

lemma mergeBatches_result:
  "(\<forall>xs. 2 \<le> length xs \<and> length xs \<le> 10 \<longrightarrow>
      (\<exists>r. mergeDocumentPdfMulti api xs = Inr r \<and> content r = concat (map content xs)))
   \<Longrightarrow> content cur = concat (map content (take i pdfPages))
   \<Longrightarrow> \<exists>r. snd (mergeBatches api pdfPages i cur) = Inr r
        \<and> content r = concat (map content pdfPages)"
proof (induction api pdfPages i cur rule: mergeBatches.induct)
  case (1 api pdfPages i cur)
  let ?inputs = "cur # take 9 (drop i pdfPages)"
  show ?case
  proof (cases "i < length pdfPages")
    case False
    with "1.prems" show ?thesis by (simp add: mergeBatches_stop)
  next
    case True
    then have len: "2 \<le> length ?inputs \<and> length ?inputs \<le> 10" by auto
    with "1.prems"(1) obtain merged where
      m: "mergeDocumentPdfMulti api ?inputs = Inr merged"
      and cm: "content merged = concat (map content ?inputs)" by blast
    have "take (i + 9) pdfPages = take i pdfPages @ take 9 (drop i pdfPages)"
      by (simp add: take_add)
    with cm "1.prems"(2) have "content merged = concat (map content (take (i + 9) pdfPages))"
      by simp
    from "1.IH" [OF True refl m "1.prems"(1) this] show ?thesis
      using True m by (simp add: mergeBatches_step)
  qed
qed

lemma mapResult_length: "mapResult f xs = Inr ys \<Longrightarrow> length ys = length xs"
  by (induction xs arbitrary: ys) (auto split: sum.splits)

lemma mapResult_Inr: "mapResult Inr xs = Inr xs"
  by (induction xs) auto

lemma mapResult_all_ok:
  "\<forall>x \<in> set xs. \<not> isl (f x) \<Longrightarrow> \<exists>ys. mapResult f xs = Inr ys"
proof (induction xs)
  case Nil
  then show ?case by simp
next
  case (Cons x xs)
  then obtain y ys where "f x = Inr y" "mapResult f xs = Inr ys"
    by (cases "f x") auto
  then show ?case by simp
qed

lemma convertWithCloudmersive_not_one:
  assumes "length urls \<noteq> 1"
  shows "isl (convertWithCloudmersive e urls apiKey)"
proof (cases "mapResult (downloadBody e) urls")
  case (Inl m)
  then show ?thesis by (simp add: convertWithCloudmersive_def)
next
  case (Inr imageBuffers)
  then have "length imageBuffers = length urls" by (rule mapResult_length)
  with assms Inr show ?thesis by (simp add: convertWithCloudmersive_def)
qed

lemma convertWithCloudmersive_not_implemented:
  assumes "length urls \<noteq> 1" and "\<forall>u \<in> set urls. \<not> isl (fetch e u)"
  shows "convertWithCloudmersive e urls apiKey
         = Inl ''Multiple image conversion with Cloudmersive not implemented''"
proof -
  from assms(2) have "\<forall>u \<in> set urls. \<not> isl (downloadBody e u)"
    by (auto simp: downloadBody_def split: sum.splits)
  from mapResult_all_ok [OF this] obtain imageBuffers where
    d: "mapResult (downloadBody e) urls = Inr imageBuffers" by blast
  then have "length imageBuffers = length urls" by (rule mapResult_length)
  with assms(1) d show ?thesis by (simp add: convertWithCloudmersive_def)
qed

lemma convertWithCloudmersive_one:
  "convertWithCloudmersive e [u] apiKey
   = (case fetch e u of Inl m \<Rightarrow> Inl m | Inr r \<Rightarrow> convertImageImageToPdf e (body r))"
  by (simp add: convertWithCloudmersive_def downloadBody_def split: sum.splits)

lemma convertImagesWithApi_batches:
  "list_all (\<lambda>inputs. length inputs \<le> 10) (fst (convertImagesWithApi e api apiKey imageBuffers))
   \<and> (mapResult (convertImageImageToPdf e) imageBuffers = Inr pdfPages \<and> 10 < length pdfPages
        \<longrightarrow> hd (fst (convertImagesWithApi e api apiKey imageBuffers)) = take 10 pdfPages
          \<and> (\<forall>j. Suc j < length (fst (convertImagesWithApi e api apiKey imageBuffers)) \<longrightarrow>
                mergeDocumentPdfMulti api (fst (convertImagesWithApi e api apiKey imageBuffers) ! j)
                  = Inr (hd (fst (convertImagesWithApi e api apiKey imageBuffers) ! Suc j))
                \<and> tl (fst (convertImagesWithApi e api apiKey imageBuffers) ! Suc j)
                  = take 9 (drop (10 + 9 * j) pdfPages)))
   \<and> (mapResult (convertImageImageToPdf e) imageBuffers = Inr pdfPages \<and> imageBuffers \<noteq> []
        \<and> (\<forall>xs. 2 \<le> length xs \<and> length xs \<le> 10 \<longrightarrow>
              (\<exists>r. mergeDocumentPdfMulti api xs = Inr r \<and> content r = concat (map content xs)))
        \<and> (\<forall>a b. \<exists>r. mergeDocumentPdf api a b = Inr r \<and> content r = content a @ content b)
        \<longrightarrow> length pdfPages = length imageBuffers
          \<and> (\<exists>r. snd (convertImagesWithApi e api apiKey imageBuffers) = Inr r
                \<and> content r = concat (map content pdfPages)))"
proof -
  let ?calls = "fst (convertImagesWithApi e api apiKey imageBuffers)"
  let ?res = "snd (convertImagesWithApi e api apiKey imageBuffers)"
  have P1: "list_all (\<lambda>inputs. length inputs \<le> 10) ?calls"
  proof (cases "mapResult (convertImageImageToPdf e) imageBuffers")
    case (Inl m)
    then show ?thesis by (simp add: convertImagesWithApi_def)
  next
    case (Inr pages)
    have b: "\<And>cur. list_all (\<lambda>inputs. length inputs \<le> 10) (fst (mergeBatches api pages 10 cur))"
      using mergeBatches_calls [of api pages 10] by (auto simp: list_all_iff)
    show ?thesis
      using Inr b
      by (auto simp: convertImagesWithApi_def split_def split: sum.splits)
  qed
  have P2: "hd ?calls = take 10 pdfPages
      \<and> (\<forall>j. Suc j < length ?calls \<longrightarrow>
          mergeDocumentPdfMulti api (?calls ! j) = Inr (hd (?calls ! Suc j))
          \<and> tl (?calls ! Suc j) = take 9 (drop (10 + 9 * j) pdfPages))"
    if a: "mapResult (convertImageImageToPdf e) imageBuffers = Inr pdfPages \<and> 10 < length pdfPages"
  proof (cases "mergeDocumentPdfMulti api (take 10 pdfPages)")
    case (Inl m)
    with a have "?calls = [take 10 pdfPages]" by (simp add: convertImagesWithApi_def)
    then show ?thesis by simp
  next
    case (Inr mergedPdf)
    let ?rest = "fst (mergeBatches api pdfPages 10 mergedPdf)"
    from a Inr have eq: "?calls = take 10 pdfPages # ?rest"
      by (simp add: convertImagesWithApi_def split_def)
    from mergeBatches_calls [of api pdfPages 10 mergedPdf] have
      b: "\<forall>j < length ?rest. tl (?rest ! j) = take 9 (drop (10 + 9 * j) pdfPages)"
      and c: "?rest \<noteq> [] \<longrightarrow> hd (hd ?rest) = mergedPdf"
      and d: "\<forall>j. Suc j < length ?rest \<longrightarrow>
               mergeDocumentPdfMulti api (?rest ! j) = Inr (hd (?rest ! Suc j))"
      by blast+
    have "hd ?calls = take 10 pdfPages" by (simp add: eq)
    moreover have "\<forall>j. Suc j < length ?calls \<longrightarrow>
          mergeDocumentPdfMulti api (?calls ! j) = Inr (hd (?calls ! Suc j))
          \<and> tl (?calls ! Suc j) = take 9 (drop (10 + 9 * j) pdfPages)"
    proof (intro allI impI)
      fix j assume j: "Suc j < length ?calls"
      then have jr: "j < length ?rest" by (simp add: eq)
      have t: "tl (?calls ! Suc j) = take 9 (drop (10 + 9 * j) pdfPages)"
        using b jr by (simp add: eq)
      have "mergeDocumentPdfMulti api (?calls ! j) = Inr (hd (?calls ! Suc j))"
      proof (cases j)
        case 0
        from jr have "?rest \<noteq> []" by auto
        with c have "hd (?rest ! 0) = mergedPdf" by (simp add: hd_conv_nth)
        with 0 Inr show ?thesis by (simp add: eq)
      next
        case (Suc k)
        with jr d show ?thesis by (simp add: eq)
      qed
      with t show "mergeDocumentPdfMulti api (?calls ! j) = Inr (hd (?calls ! Suc j))
          \<and> tl (?calls ! Suc j) = take 9 (drop (10 + 9 * j) pdfPages)" by simp
    qed
    ultimately show ?thesis by simp
  qed
  have P3: "length pdfPages = length imageBuffers
      \<and> (\<exists>r. ?res = Inr r \<and> content r = concat (map content pdfPages))"
    if a: "mapResult (convertImageImageToPdf e) imageBuffers = Inr pdfPages \<and> imageBuffers \<noteq> []
        \<and> (\<forall>xs. 2 \<le> length xs \<and> length xs \<le> 10 \<longrightarrow>
              (\<exists>r. mergeDocumentPdfMulti api xs = Inr r \<and> content r = concat (map content xs)))
        \<and> (\<forall>a b. \<exists>r. mergeDocumentPdf api a b = Inr r \<and> content r = content a @ content b)"
  proof -
  from a have conv: "mapResult (convertImageImageToPdf e) imageBuffers = Inr pdfPages"
    and multi: "\<forall>xs. 2 \<le> length xs \<and> length xs \<le> 10 \<longrightarrow>
              (\<exists>r. mergeDocumentPdfMulti api xs = Inr r \<and> content r = concat (map content xs))"
    and two: "\<forall>a b. \<exists>r. mergeDocumentPdf api a b = Inr r \<and> content r = content a @ content b"
    by blast+
  have len: "length pdfPages = length imageBuffers"
    using conv by (rule mapResult_length)
  with a have ne: "0 < length pdfPages" by auto
  then consider (one) "length pdfPages = 1" | (two) "length pdfPages = 2"
    | (few) "2 < length pdfPages" "length pdfPages \<le> 10" | (many) "10 < length pdfPages"
    by atomize_elim arith
  then have "\<exists>r. ?res = Inr r \<and> content r = concat (map content pdfPages)"
  proof cases
    case one
    then obtain p where "pdfPages = [p]" by (cases pdfPages) auto
    with conv show ?thesis by (simp add: convertImagesWithApi_def)
  next
    case two
    then obtain p q where pq: "pdfPages = [p, q]"
      by (cases pdfPages; cases "tl pdfPages") auto
    from two obtain r where "mergeDocumentPdf api p q = Inr r" "content r = content p @ content q"
      using a by blast
    with conv pq show ?thesis by (simp add: convertImagesWithApi_def)
  next
    case few
    then have "2 \<le> length (take 10 pdfPages) \<and> length (take 10 pdfPages) \<le> 10" by simp
    with multi obtain r where "mergeDocumentPdfMulti api (take 10 pdfPages) = Inr r"
      "content r = concat (map content (take 10 pdfPages))" by blast
    with conv few show ?thesis by (simp add: convertImagesWithApi_def)
  next
    case many
    then have "2 \<le> length (take 10 pdfPages) \<and> length (take 10 pdfPages) \<le> 10" by simp
    with multi obtain r where r: "mergeDocumentPdfMulti api (take 10 pdfPages) = Inr r"
      "content r = concat (map content (take 10 pdfPages))" by blast
    from mergeBatches_result [OF multi r(2)] obtain r' where
      "snd (mergeBatches api pdfPages 10 r) = Inr r'" "content r' = concat (map content pdfPages)"
      by blast
    with conv many r(1) show ?thesis by (simp add: convertImagesWithApi_def split_def)
  qed
  with len show ?thesis by simp
  qed
  show ?thesis using P1 P2 P3 by (intro conjI impI) blast+
qed

text \<open>
  C7, as the code has it. The remote-API approach an image job runs,
  \<open>convertWithCloudmersive\<close>, makes no call to the merge API: for one source it
  returns what the image-to-PDF call gives for the downloaded image, and for any other
  number of sources it raises, with the message that multiple image conversion is not
  implemented when the downloads succeed. Batching exists only in the helper
  \<open>convertImagesWithApi\<close>, which no job calls. Every merge call of the helper passes
  at most ten input files. When the images convert to more than ten documents, its
  first call merges the first ten, and every later call passes the output of the call
  before it as its first input, followed by the next nine (or fewer, at the end)
  documents not yet merged. When every image converts and the API returns, for up to
  ten inputs, a document whose content is the inputs' contents in order, the helper
  returns a document whose content is that of all the documents, in order.
\<close>

theorem remote_tier_one_image_helper_batches_by_ten:
  "(length urls \<noteq> 1 \<longrightarrow> isl (convertWithCloudmersive e urls apiKey))
   \<and> (length urls \<noteq> 1 \<and> (\<forall>u \<in> set urls. \<not> isl (fetch e u))
        \<longrightarrow> convertWithCloudmersive e urls apiKey
              = Inl ''Multiple image conversion with Cloudmersive not implemented'')
   \<and> convertWithCloudmersive e [u] apiKey
       = (case fetch e u of Inl m \<Rightarrow> Inl m | Inr r \<Rightarrow> convertImageImageToPdf e (body r))
   \<and> list_all (\<lambda>inputs. length inputs \<le> 10) (fst (convertImagesWithApi e api apiKey imageBuffers))
   \<and> (mapResult (convertImageImageToPdf e) imageBuffers = Inr pdfPages \<and> 10 < length pdfPages
        \<longrightarrow> hd (fst (convertImagesWithApi e api apiKey imageBuffers)) = take 10 pdfPages
          \<and> (\<forall>j. Suc j < length (fst (convertImagesWithApi e api apiKey imageBuffers)) \<longrightarrow>
                mergeDocumentPdfMulti api (fst (convertImagesWithApi e api apiKey imageBuffers) ! j)
                  = Inr (hd (fst (convertImagesWithApi e api apiKey imageBuffers) ! Suc j))
                \<and> tl (fst (convertImagesWithApi e api apiKey imageBuffers) ! Suc j)
                  = take 9 (drop (10 + 9 * j) pdfPages)))
   \<and> (mapResult (convertImageImageToPdf e) imageBuffers = Inr pdfPages \<and> imageBuffers \<noteq> []
        \<and> (\<forall>xs. 2 \<le> length xs \<and> length xs \<le> 10 \<longrightarrow>
              (\<exists>r. mergeDocumentPdfMulti api xs = Inr r \<and> content r = concat (map content xs)))
        \<and> (\<forall>a b. \<exists>r. mergeDocumentPdf api a b = Inr r \<and> content r = content a @ content b)
        \<longrightarrow> length pdfPages = length imageBuffers
          \<and> (\<exists>r. snd (convertImagesWithApi e api apiKey imageBuffers) = Inr r
                \<and> content r = concat (map content pdfPages)))"
  using convertWithCloudmersive_not_one [of urls e apiKey]
    convertWithCloudmersive_not_implemented [of urls e apiKey]
    convertWithCloudmersive_one [of e u apiKey]
    convertImagesWithApi_batches [of e api apiKey imageBuffers pdfPages content]
  by (intro conjI impI) (simp_all only:, blast+)

text \<open>
  C7 as stated fails: with an API key configured, the remote-API approach of the chain
  merges nothing for two sources and for eleven; it raises, and the chain answers with
  the document of PDFKit.
\<close>

theorem convertWithCloudmersive_rejects_several_images:
  "convertWithCloudmersive (exampleEnv\<lparr>CLOUDMERSIVE_API_KEY := Some ''key''\<rparr>)
       [''blob/2'', ''blob/3''] ''key''
     = Inl ''Multiple image conversion with Cloudmersive not implemented''
   \<and> convertWithCloudmersive (exampleEnv\<lparr>CLOUDMERSIVE_API_KEY := Some ''key''\<rparr>)
       [''blob/2'', ''blob/3'', ''blob/2'', ''blob/3'', ''blob/2'', ''blob/3'', ''blob/2'',
        ''blob/3'', ''blob/2'', ''blob/3'', ''blob/2''] ''key''
     = Inl ''Multiple image conversion with Cloudmersive not implemented''
   \<and> convertImagesToPdfBuffer (exampleEnv\<lparr>CLOUDMERSIVE_API_KEY := Some ''key''\<rparr>)
       [Some ''blob/2'', Some ''blob/3'']
     = convertWithPdfKit (exampleEnv\<lparr>CLOUDMERSIVE_API_KEY := Some ''key''\<rparr>)
         [''blob/2'', ''blob/3'']
   \<and> convertWithPdfKit (exampleEnv\<lparr>CLOUDMERSIVE_API_KEY := Some ''key''\<rparr>)
         [''blob/2'', ''blob/3''] = Inr [2, 3]"
  by (simp add: convertWithCloudmersive_def convertImagesToPdfBuffer_def downloadBody_def
      exampleEnv_def truthyUrls_def falsy_def convertWithPdfKit_def pdfkitImage_def
      drawBytes_def)

text \<open>
  The helper merges twenty-three documents in three calls of 10, 10 and 5 inputs; the
  second call passes the merge of the first ten and the documents 11 to 19; the result
  holds all twenty-three. The approach of the chain raises for two sources.
\<close>

theorem remote_tier_one_image_helper_batches_by_ten_witness:
  "map length (fst (convertImagesWithApi (exampleEnv\<lparr>CLOUDMERSIVE_API_KEY := Some ''key''\<rparr>) concatApi ''key'' twentyThreePages))
     = [10, 10, 5]
   \<and> fst (convertImagesWithApi (exampleEnv\<lparr>CLOUDMERSIVE_API_KEY := Some ''key''\<rparr>) concatApi ''key'' twentyThreePages) ! 1
     = [[1, 2, 3, 4, 5, 6, 7, 8, 9, 10], [11], [12], [13], [14], [15], [16], [17], [18], [19]]
   \<and> snd (convertImagesWithApi (exampleEnv\<lparr>CLOUDMERSIVE_API_KEY := Some ''key''\<rparr>) concatApi ''key'' twentyThreePages)
     = Inr [1, 2, 3, 4, 5, 6, 7, 8, 9, 10, 11, 12, 13, 14, 15, 16, 17, 18, 19, 20, 21, 22, 23]
   \<and> convertWithCloudmersive (exampleEnv\<lparr>CLOUDMERSIVE_API_KEY := Some ''key''\<rparr>)
       [''blob/2'', ''blob/3''] ''key''
     = Inl ''Multiple image conversion with Cloudmersive not implemented''"
proof -
  let ?e = "exampleEnv\<lparr>CLOUDMERSIVE_API_KEY := Some ''key''\<rparr>"
  let ?imgs = twentyThreePages
  let ?all = "[1, 2, 3, 4, 5, 6, 7, 8, 9, 10, 11, 12, 13, 14, 15, 16, 17, 18, 19, 20, 21, 22,
      23 :: nat]"
  have conv: "mapResult (convertImageImageToPdf ?e) ?imgs = Inr ?imgs"
    by (simp add: exampleEnv_def mapResult_Inr)
  have multi: "\<forall>xs. 2 \<le> length xs \<and> length xs \<le> 10 \<longrightarrow>
      (\<exists>r. mergeDocumentPdfMulti concatApi xs = Inr r
         \<and> (\<lambda>b. b) r = concat (map (\<lambda>b. b) xs))"
    by (simp add: concatApi_def)
  have two: "\<forall>a b. \<exists>r. mergeDocumentPdf concatApi a b = Inr r
      \<and> (\<lambda>b. b) r = (\<lambda>b. b) a @ (\<lambda>b. b) b"
    by (simp add: concatApi_def)
  have ne: "?imgs \<noteq> []" by (simp add: twentyThreePages_def)
  have calls: "fst (convertImagesWithApi ?e concatApi ''key'' ?imgs)
      = [[[1], [2], [3], [4], [5], [6], [7], [8], [9], [10]],
         [[1, 2, 3, 4, 5, 6, 7, 8, 9, 10], [11], [12], [13], [14], [15], [16], [17], [18], [19]],
         [[1, 2, 3, 4, 5, 6, 7, 8, 9, 10, 11, 12, 13, 14, 15, 16, 17, 18, 19],
          [20], [21], [22], [23]]]"
    by (simp add: convertImagesWithApi_def exampleEnv_def concatApi_def mapResult_Inr
        twentyThreePages_def mergeBatches.simps)
  have c: "concat ?imgs = ?all"
    by (simp add: twentyThreePages_def)
  have dl: "length [''blob/2'', ''blob/3''] \<noteq> 1
      \<and> (\<forall>u \<in> set [''blob/2'', ''blob/3'']. \<not> isl (fetch ?e u))"
    by (simp add: exampleEnv_def)
  note t = remote_tier_one_image_helper_batches_by_ten [where e = "?e" and api = concatApi and apiKey = "''key''"
      and imageBuffers = "?imgs" and pdfPages = "?imgs" and content = "\<lambda>b. b"
      and urls = "[''blob/2'', ''blob/3'']"]
  from t dl have cloud: "convertWithCloudmersive ?e [''blob/2'', ''blob/3''] ''key''
      = Inl ''Multiple image conversion with Cloudmersive not implemented''" by blast
  from t conv ne multi two
  have "\<exists>r. snd (convertImagesWithApi ?e concatApi ''key'' ?imgs) = Inr r
      \<and> r = concat (map (\<lambda>b. b) ?imgs)" by blast
  then have "snd (convertImagesWithApi ?e concatApi ''key'' ?imgs) = Inr ?all"
    using c by simp
  with cloud show ?thesis unfolding calls by simp
qed

section \<open>The chain of image conversions\<close>

lemma chain_order:
  "truthyUrls urls \<noteq> [] \<Longrightarrow>
      convertImagesToPdfBuffer e urls =
        (if \<not> falsy (CLOUDMERSIVE_API_KEY e)
            \<and> \<not> isl (convertWithCloudmersive e (truthyUrls urls) (the (CLOUDMERSIVE_API_KEY e)))
         then convertWithCloudmersive e (truthyUrls urls) (the (CLOUDMERSIVE_API_KEY e))
         else if \<not> isl (convertWithPdfKit e (truthyUrls urls))
         then convertWithPdfKit e (truthyUrls urls)
         else createSimplePdfFromUrls e (truthyUrls urls))"
  by (auto simp: convertImagesToPdfBuffer_def Let_def split: sum.splits)

lemma chain_fails_iff:
  "isl (convertImagesToPdfBuffer e urls) \<longleftrightarrow>
     truthyUrls urls = []
     \<or> ((falsy (CLOUDMERSIVE_API_KEY e)
          \<or> isl (convertWithCloudmersive e (truthyUrls urls) (the (CLOUDMERSIVE_API_KEY e))))
        \<and> isl (convertWithPdfKit e (truthyUrls urls))
        \<and> isl (createSimplePdfFromUrls e (truthyUrls urls)))"
  by (auto simp: convertImagesToPdfBuffer_def Let_def split: sum.splits)

lemma convertImagesToPdf_failed:
  assumes get: "db_get st i = Some c" and ty: "type c = ImageToPdf"
    and tried: "convertImagesToPdfTry e caller i c st = Inl (m, st)"
  shows "\<exists>st' c'. convertImagesToPdf e caller i st = (Inl m, st') \<and> db_get st' i = Some c'
           \<and> status c' = Failed \<and> error c' \<noteq> None \<and> pdfFileId c' = pdfFileId c"
proof -
  let ?msg = "if m = [] then ''Unknown error'' else m"
  from updateConversionJob_result [OF get, of e caller None "Some Failed" "Some ?msg"]
  obtain st' where u: "updateConversionJob e caller i None (Some Failed) (Some ?msg) st = Inr st'"
    and g: "db_get st' i = Some (applyPatch (noFields\<lparr>p_pdfFileId := None,
        p_status := Some Failed,
        p_error := (case Some ?msg of None \<Rightarrow> None | Some m \<Rightarrow> if m = [] then None else Some m),
        p_updatedAt := Some (now e)\<rparr>) c)" by blast
  have "convertImagesToPdf e caller i st = (Inl m, st')"
    using get ty tried u by (simp add: convertImagesToPdf_def getConversionJob_def)
  with g show ?thesis by (auto simp: applyPatch_def noFields_def)
qed

lemma convertImagesToPdf_completed:
  assumes get: "db_get st i = Some c" and ty: "type c = ImageToPdf"
    and urls: "jobSourceUrls e st c \<noteq> []"
    and chain: "convertImagesToPdfBuffer e (jobSourceUrls e st c) = Inr pdf"
    and up: "upload e pdf = UploadStored"
  shows "\<exists>st' c'. convertImagesToPdf e caller i st = (Inr (Some (nextStorageId st)), st')
           \<and> db_get st' i = Some c' \<and> status c' = Completed
           \<and> pdfFileId c' = Some (nextStorageId st)
           \<and> files st' = files st @ [(nextStorageId st, pdf)]"
proof -
  let ?n = "nextStorageId st"
  let ?st1 = "st\<lparr>files := files st @ [(?n, pdf)], nextStorageId := Suc ?n\<rparr>"
  have st1: "storage_store pdf st = (?n, ?st1)" by (simp add: storage_store_def)
  have get1: "db_get ?st1 i = Some c" using get by (simp add: db_get_def)
  from updateConversionJob_result [OF get1, of e caller "Some ?n" "Some Completed" None]
  obtain st2 where u: "updateConversionJob e caller i (Some ?n) (Some Completed) None ?st1 = Inr st2"
    and g: "db_get st2 i = Some (applyPatch (noFields\<lparr>p_pdfFileId := Some ?n,
        p_status := Some Completed, p_error := None, p_updatedAt := Some (now e)\<rparr>) c)"
    and f: "files st2 = files ?st1"
    by auto
  have "convertImagesToPdfTry e caller i c st = Inr (Some ?n, st2)"
    using urls chain up
    by (simp add: convertImagesToPdfTry_def jobSourceUrls_def [symmetric] st1 u)
  then have "convertImagesToPdf e caller i st = (Inr (Some ?n), st2)"
    using get ty by (simp add: convertImagesToPdf_def getConversionJob_def)
  with g f show ?thesis by (auto simp: applyPatch_def noFields_def)
qed

lemma convertImagesToPdf_completed_without_id:
  assumes get: "db_get st i = Some c" and ty: "type c = ImageToPdf"
    and urls: "jobSourceUrls e st c \<noteq> []"
    and chain: "convertImagesToPdfBuffer e (jobSourceUrls e st c) = Inr pdf"
    and up: "upload e pdf = UploadNoStorageId"
  shows "\<exists>st' c'. convertImagesToPdf e caller i st = (Inr None, st')
           \<and> db_get st' i = Some c' \<and> status c' = Completed"
proof -
  from updateConversionJob_result [OF get, of e caller None "Some Completed" None]
  obtain st2 where u: "updateConversionJob e caller i None (Some Completed) None st = Inr st2"
    and g: "db_get st2 i = Some (applyPatch (noFields\<lparr>p_pdfFileId := None,
        p_status := Some Completed, p_error := None, p_updatedAt := Some (now e)\<rparr>) c)"
    by auto
  have "convertImagesToPdfTry e caller i c st = Inr (None, st2)"
    using urls chain up
    by (simp add: convertImagesToPdfTry_def jobSourceUrls_def [symmetric] u)
  then have "convertImagesToPdf e caller i st = (Inr None, st2)"
    using get ty by (simp add: convertImagesToPdf_def getConversionJob_def)
  with g show ?thesis by (auto simp: applyPatch_def noFields_def)
qed

text \<open>
  C6, as the code has it. Given at least one usable source URL,
  \<open>convertImagesToPdfBuffer\<close> returns the result of the Cloudmersive approach when an
  API key is configured and that approach succeeds, otherwise the result of PDFKit when
  that succeeds, otherwise whatever the fallback gives: an error of either of the first
  two approaches is caught and the next one is tried. It raises exactly when no source
  URL is usable or when every approach it tried has failed, the first being tried only
  with an API key. The action \<open>convertImagesToPdf\<close> on an \<open>image_to_pdf\<close> job ends
  with the job \<open>failed\<close> exactly when it throws, and \<open>completed\<close> otherwise; it
  throws exactly when the job has no sources, or the chain raises, or the upload
  request or the reading of its reply throws, and then the job has an error message and
  its \<open>pdfFileId\<close> is untouched. When the reply to the upload carries a storage id,
  the document is in the blob store under that id, which the action returns and
  records as \<open>pdfFileId\<close>.
\<close>

theorem image_chain_falls_through:
  "(truthyUrls urls \<noteq> [] \<longrightarrow>
      convertImagesToPdfBuffer e urls =
        (if \<not> falsy (CLOUDMERSIVE_API_KEY e)
            \<and> \<not> isl (convertWithCloudmersive e (truthyUrls urls) (the (CLOUDMERSIVE_API_KEY e)))
         then convertWithCloudmersive e (truthyUrls urls) (the (CLOUDMERSIVE_API_KEY e))
         else if \<not> isl (convertWithPdfKit e (truthyUrls urls))
         then convertWithPdfKit e (truthyUrls urls)
         else createSimplePdfFromUrls e (truthyUrls urls)))
   \<and> (isl (convertImagesToPdfBuffer e urls) \<longleftrightarrow>
        truthyUrls urls = []
        \<or> ((falsy (CLOUDMERSIVE_API_KEY e)
             \<or> isl (convertWithCloudmersive e (truthyUrls urls) (the (CLOUDMERSIVE_API_KEY e))))
           \<and> isl (convertWithPdfKit e (truthyUrls urls))
           \<and> isl (createSimplePdfFromUrls e (truthyUrls urls))))
   \<and> (db_get st i = Some c \<and> type c = ImageToPdf \<longrightarrow>
        (\<exists>r st' c'. convertImagesToPdf e caller i st = (r, st') \<and> db_get st' i = Some c'
           \<and> (status c' = Failed \<longleftrightarrow> isl r)
           \<and> (status c' = Completed \<longleftrightarrow> \<not> isl r)
           \<and> (isl r \<longleftrightarrow>
                 jobSourceUrls e st c = []
                 \<or> isl (convertImagesToPdfBuffer e (jobSourceUrls e st c))
                 \<or> (\<exists>pdf m. convertImagesToPdfBuffer e (jobSourceUrls e st c) = Inr pdf
                       \<and> upload e pdf = UploadThrows m))
           \<and> (isl r \<longrightarrow> error c' \<noteq> None \<and> pdfFileId c' = pdfFileId c)
           \<and> (\<forall>pdf. jobSourceUrls e st c \<noteq> []
                 \<and> convertImagesToPdfBuffer e (jobSourceUrls e st c) = Inr pdf
                 \<and> upload e pdf = UploadStored
               \<longrightarrow> r = Inr (Some (nextStorageId st))
                 \<and> pdfFileId c' = Some (nextStorageId st)
                 \<and> files st' = files st @ [(nextStorageId st, pdf)])))"
proof (intro conjI impI)
  assume "truthyUrls urls \<noteq> []"
  then show "convertImagesToPdfBuffer e urls =
        (if \<not> falsy (CLOUDMERSIVE_API_KEY e)
            \<and> \<not> isl (convertWithCloudmersive e (truthyUrls urls) (the (CLOUDMERSIVE_API_KEY e)))
         then convertWithCloudmersive e (truthyUrls urls) (the (CLOUDMERSIVE_API_KEY e))
         else if \<not> isl (convertWithPdfKit e (truthyUrls urls))
         then convertWithPdfKit e (truthyUrls urls)
         else createSimplePdfFromUrls e (truthyUrls urls))"
    by (rule chain_order)
next
  show "isl (convertImagesToPdfBuffer e urls) \<longleftrightarrow>
        truthyUrls urls = []
        \<or> ((falsy (CLOUDMERSIVE_API_KEY e)
             \<or> isl (convertWithCloudmersive e (truthyUrls urls) (the (CLOUDMERSIVE_API_KEY e))))
           \<and> isl (convertWithPdfKit e (truthyUrls urls))
           \<and> isl (createSimplePdfFromUrls e (truthyUrls urls)))"
    by (rule chain_fails_iff)
next
  assume a: "db_get st i = Some c \<and> type c = ImageToPdf"
  then have get: "db_get st i = Some c" and ty: "type c = ImageToPdf" by simp_all
  let ?u = "jobSourceUrls e st c"
  let ?goal = "\<exists>r st' c'. convertImagesToPdf e caller i st = (r, st') \<and> db_get st' i = Some c'
           \<and> (status c' = Failed \<longleftrightarrow> isl r)
           \<and> (status c' = Completed \<longleftrightarrow> \<not> isl r)
           \<and> (isl r \<longleftrightarrow>
                 ?u = [] \<or> isl (convertImagesToPdfBuffer e ?u)
                 \<or> (\<exists>pdf m. convertImagesToPdfBuffer e ?u = Inr pdf \<and> upload e pdf = UploadThrows m))
           \<and> (isl r \<longrightarrow> error c' \<noteq> None \<and> pdfFileId c' = pdfFileId c)
           \<and> (\<forall>pdf. ?u \<noteq> [] \<and> convertImagesToPdfBuffer e ?u = Inr pdf
                 \<and> upload e pdf = UploadStored
               \<longrightarrow> r = Inr (Some (nextStorageId st))
                 \<and> pdfFileId c' = Some (nextStorageId st)
                 \<and> files st' = files st @ [(nextStorageId st, pdf)])"
  have failed: ?goal
    if t: "convertImagesToPdfTry e caller i c st = Inl (m, st)"
      and why: "?u = [] \<or> isl (convertImagesToPdfBuffer e ?u)
                 \<or> (\<exists>pdf m. convertImagesToPdfBuffer e ?u = Inr pdf \<and> upload e pdf = UploadThrows m)"
    for m
  proof -
    from convertImagesToPdf_failed [OF get ty t] obtain st' c' where
      "convertImagesToPdf e caller i st = (Inl m, st')" "db_get st' i = Some c'"
      "status c' = Failed" "error c' \<noteq> None" "pdfFileId c' = pdfFileId c" by blast
    with why show ?thesis by auto
  qed
  show ?goal
  proof (cases "?u = []")
    case True
    then have "convertImagesToPdfTry e caller i c st = Inl (''No source images found'', st)"
      by (simp add: convertImagesToPdfTry_def jobSourceUrls_def [symmetric])
    then show ?thesis by (rule failed) (simp add: True)
  next
    case ne: False
    show ?thesis
    proof (cases "convertImagesToPdfBuffer e ?u")
      case (Inl m)
      with ne have "convertImagesToPdfTry e caller i c st = Inl (m, st)"
        by (simp add: convertImagesToPdfTry_def jobSourceUrls_def [symmetric])
      then show ?thesis by (rule failed) (simp add: Inl)
    next
      case (Inr pdf)
      show ?thesis
      proof (cases "upload e pdf")
        case (UploadThrows m)
        with ne Inr have "convertImagesToPdfTry e caller i c st = Inl (m, st)"
          by (simp add: convertImagesToPdfTry_def jobSourceUrls_def [symmetric])
        then show ?thesis by (rule failed) (simp add: Inr UploadThrows)
      next
        case UploadStored
        from convertImagesToPdf_completed [OF get ty ne Inr UploadStored, of caller]
        obtain st' c' where
          "convertImagesToPdf e caller i st = (Inr (Some (nextStorageId st)), st')"
          "db_get st' i = Some c'" "status c' = Completed"
          "pdfFileId c' = Some (nextStorageId st)"
          "files st' = files st @ [(nextStorageId st, pdf)]" by blast
        with ne Inr UploadStored show ?thesis by auto
      next
        case UploadNoStorageId
        from convertImagesToPdf_completed_without_id [OF get ty ne Inr UploadNoStorageId, of caller]
        obtain st' c' where
          "convertImagesToPdf e caller i st = (Inr None, st')"
          "db_get st' i = Some c'" "status c' = Completed" by blast
        with ne Inr UploadNoStorageId show ?thesis by auto
      qed
    qed
  qed
qed

text \<open>
  Bob's job over the blobs 2 and 3, with no API key: PDFKit produces the document,
  it is stored as blob 4 and the job completes with it. With an upload whose reply
  carries no storage id the job completes as well. With a PDFKit that rejects the
  images and texts that cannot be encoded, every approach tried fails and the job ends
  \<open>failed\<close> with an error.
\<close>

theorem image_chain_falls_through_witness:
  "truthyUrls [Some ''blob/2'', Some ''blob/3''] \<noteq> []
   \<and> db_get twoUsersState 1 = Some (conversions twoUsersState ! 1)
   \<and> type (conversions twoUsersState ! 1) = ImageToPdf
   \<and> convertImagesToPdfBuffer exampleEnv [Some ''blob/2'', Some ''blob/3''] = Inr [2, 3]
   \<and> isl (convertImagesToPdfBuffer
        (exampleEnv\<lparr>pdfkitImageError := \<lambda>b. Some ''Unknown image format'',
                    pdfLibEncodeError := \<lambda>t. Some ''WinAnsi cannot encode''\<rparr>)
        [Some ''blob/2'', Some ''blob/3''])
   \<and> (\<exists>st' c'. convertImagesToPdf exampleEnv None 1 twoUsersState = (Inr (Some 4), st')
         \<and> db_get st' 1 = Some c' \<and> status c' = Completed \<and> pdfFileId c' = Some 4
         \<and> files st' = [(1, [1]), (2, [2]), (3, [3]), (4, [2, 3])])
   \<and> (\<exists>r st' c'. convertImagesToPdf (exampleEnv\<lparr>upload := \<lambda>b. UploadNoStorageId\<rparr>)
           None 1 twoUsersState = (r, st')
         \<and> db_get st' 1 = Some c' \<and> \<not> isl r \<and> status c' = Completed)
   \<and> (\<exists>r st' c'. convertImagesToPdf
           (exampleEnv\<lparr>pdfkitImageError := \<lambda>b. Some ''Unknown image format'',
                       pdfLibEncodeError := \<lambda>t. Some ''WinAnsi cannot encode''\<rparr>)
           None 1 twoUsersState = (r, st')
         \<and> db_get st' 1 = Some c' \<and> isl r \<and> status c' = Failed \<and> error c' \<noteq> None)"
proof -
  let ?urls = "[Some ''blob/2'', Some ''blob/3'']"
  let ?c = "conversions twoUsersState ! 1"
  let ?bad = "exampleEnv\<lparr>pdfkitImageError := \<lambda>b. Some ''Unknown image format'',
                       pdfLibEncodeError := \<lambda>t. Some ''WinAnsi cannot encode''\<rparr>"
  let ?noid = "exampleEnv\<lparr>upload := \<lambda>b. UploadNoStorageId\<rparr>"
  have t: "truthyUrls ?urls = [''blob/2'', ''blob/3'']" by (simp add: truthyUrls_def)
  have h1: "truthyUrls ?urls \<noteq> []" by (simp add: t)
  have h2: "db_get twoUsersState 1 = Some ?c"
    by (simp add: db_get_def twoUsersState_def newConversion_def)
  have h3: "type ?c = ImageToPdf" by (simp add: twoUsersState_def newConversion_def)
  have u: "jobSourceUrls exampleEnv twoUsersState ?c = ?urls"
    "jobSourceUrls ?bad twoUsersState ?c = ?urls"
    "jobSourceUrls ?noid twoUsersState ?c = ?urls"
    by (simp_all add: jobSourceUrls_def twoUsersState_def newConversion_def storage_getUrl_def
        exampleEnv_def string_of_nat.simps digitChar_def)
  have k: "falsy (CLOUDMERSIVE_API_KEY exampleEnv)" "falsy (CLOUDMERSIVE_API_KEY ?bad)"
    "falsy (CLOUDMERSIVE_API_KEY ?noid)"
    by (simp_all add: falsy_def exampleEnv_def)
  have good: "convertWithPdfKit exampleEnv [''blob/2'', ''blob/3''] = Inr [2, 3]"
    "convertWithPdfKit ?noid [''blob/2'', ''blob/3''] = Inr [2, 3]"
    by (simp_all add: convertWithPdfKit_def downloadBody_def pdfkitImage_def exampleEnv_def
        drawBytes_def)
  have bad: "isl (convertWithPdfKit ?bad [''blob/2'', ''blob/3''])"
    "isl (createSimplePdfFromUrls ?bad [''blob/2'', ''blob/3''])"
    by (simp_all add: convertWithPdfKit_def downloadBody_def pdfkitImage_def exampleEnv_def
        createSimplePdfFromUrls_def simplePdfDocument_def coverPage_def Let_def)
  have up: "\<And>pdf. upload exampleEnv pdf = UploadStored" by (simp add: exampleEnv_def)
  note g = image_chain_falls_through [of ?urls exampleEnv twoUsersState 1 ?c None]
  have up': "\<And>pdf. upload ?noid pdf = UploadNoStorageId" by simp
  have n: "nextStorageId twoUsersState = 4" by (simp add: twoUsersState_def)
  have f: "files twoUsersState = [(1, [1]), (2, [2]), (3, [3])]"
    by (simp add: twoUsersState_def)
  note b = image_chain_falls_through [of ?urls ?bad twoUsersState 1 ?c None]
  note d = image_chain_falls_through [of ?urls ?noid twoUsersState 1 ?c None]
  from g h1 have c1: "convertImagesToPdfBuffer exampleEnv ?urls = Inr [2, 3]"
    by (simp add: k t good)
  from b have c2: "isl (convertImagesToPdfBuffer ?bad ?urls)"
    by (simp add: k t bad)
  from g h2 h3 have c3: "\<exists>st' c'. convertImagesToPdf exampleEnv None 1 twoUsersState
           = (Inr (Some 4), st')
         \<and> db_get st' 1 = Some c' \<and> status c' = Completed \<and> pdfFileId c' = Some 4
         \<and> files st' = [(1, [1]), (2, [2]), (3, [3]), (4, [2, 3])]"
    unfolding u c1 n by (auto simp: up f)
  from d h1 have c1': "convertImagesToPdfBuffer ?noid ?urls = Inr [2, 3]"
    by (simp add: k t good)
  from d h2 h3 have c5: "\<exists>r st' c'. convertImagesToPdf ?noid None 1 twoUsersState = (r, st')
         \<and> db_get st' 1 = Some c' \<and> \<not> isl r \<and> status c' = Completed"
    unfolding u c1' by (auto simp: up')
  from b h2 h3 have c4: "\<exists>r st' c'. convertImagesToPdf ?bad None 1 twoUsersState = (r, st')
         \<and> db_get st' 1 = Some c' \<and> isl r \<and> status c' = Failed \<and> error c' \<noteq> None"
    unfolding u using c2 by auto
  from h1 h2 h3 c1 c2 c3 c5 c4 show ?thesis by (intro conjI)
qed

text \<open>
  C6 as stated fails: a job is marked \<open>failed\<close> although not every approach has
  failed. Bob's job is marked \<open>failed\<close> when the upload of the finished document
  throws, although PDFKit succeeded on its sources; and a job created with an empty
  source list is marked \<open>failed\<close> before any approach is tried.
\<close>

theorem image_job_failed_though_tier_succeeded:
  "(case convertImagesToPdf (exampleEnv\<lparr>upload := \<lambda>b. UploadThrows ''Upload failed''\<rparr>) None 1
          twoUsersState of
      (r, st') \<Rightarrow> r = Inl ''Upload failed''
        \<and> map_option status (db_get st' 1) = Some Failed
        \<and> map_option error (db_get st' 1) = Some (Some ''Upload failed''))
   \<and> convertWithPdfKit (exampleEnv\<lparr>upload := \<lambda>b. UploadThrows ''Upload failed''\<rparr>)
        [''blob/2'', ''blob/3''] = Inr [2, 3]
   \<and> (case startImageToPdfConversion exampleEnv (Some ''bob'') [] ''empty.pdf'' aliceState of
         Inl m \<Rightarrow> False
       | Inr (i, st1) \<Rightarrow>
           (case convertImagesToPdf exampleEnv None i st1 of
              (r, st2) \<Rightarrow> r = Inl ''No source images found''
                \<and> map_option status (db_get st2 i) = Some Failed))"
  by (simp add: convertImagesToPdf_def convertImagesToPdfTry_def getConversionJob_def db_get_def
      twoUsersState_def aliceState_def newConversion_def exampleEnv_def storage_getUrl_def
      convertImagesToPdfBuffer_def truthyUrls_def falsy_def convertWithPdfKit_def downloadBody_def
      pdfkitImage_def drawBytes_def updateConversionJob_def db_patch_def applyPatch_def noFields_def
      startImageToPdfConversion_def db_insert_def scheduler_runAfter_def
      string_of_nat.simps digitChar_def)

end
